theory Spec2Isabelle
  imports Complex_Main "HOL-Library.Sublist"
begin

section \<open>JavaScript numbers and values\<close>

text \<open>
  A JavaScript number is a binary64 value. A finite number is kept as the real it
  stands for, \<open>Fin 0\<close> being +0 and \<open>NegZero\<close> being -0; the other values are the two
  infinities and NaN. An arithmetic operation computes the exact result and rounds it
  to the nearest binary64 value, a tie going to the even significand, with gradual
  underflow and with overflow to an infinity.
\<close>

datatype jsnum = Fin real | NegZero | PInf | NInf | NaN

definition pow2 :: "int \<Rightarrow> real" where
  "pow2 k = (if 0 \<le> k then 2 ^ nat k else 1 / 2 ^ nat (- k))"

text \<open>
  The binary exponent of a magnitude \<open>m\<close>: the \<open>e\<close> with \<open>2^e <= m < 2^(e+1)\<close>,
  kept between -1022 (the exponent of the subnormal numbers) and 1023. It is found by
  stepping up from 0 when \<open>m >= 1\<close> and down from -1 otherwise.
\<close>

function exp_up :: "real \<Rightarrow> int \<Rightarrow> int" where
  "exp_up m e = (if m < pow2 (e + 1) \<or> 1023 \<le> e then e else exp_up m (e + 1))"
  by pat_completeness auto
termination by (relation "measure (\<lambda>(m, e). nat (1023 - e))") auto

function exp_down :: "real \<Rightarrow> int \<Rightarrow> int" where
  "exp_down m e = (if pow2 e \<le> m \<or> e \<le> - 1022 then e else exp_down m (e - 1))"
  by pat_completeness auto
termination by (relation "measure (\<lambda>(m, e). nat (e + 1022))") auto

declare exp_up.simps [simp del] exp_down.simps [simp del]

definition bexp :: "real \<Rightarrow> int" where
  "bexp m = (if 1 \<le> m then exp_up m 0 else exp_down m (- 1))"

text \<open>The integer nearest to \<open>x\<close>, the even one of the two when \<open>x\<close> is half way.\<close>

definition round_even :: "real \<Rightarrow> int" where
  "round_even x =
     (let f = \<lfloor>x\<rfloor>
      in if x - of_int f < 1 / 2 then f
         else if 1 / 2 < x - of_int f then f + 1
         else if even f then f else f + 1)"

text \<open>
  The magnitude \<open>m >= 0\<close> rounded to 53 significant bits: a multiple of
  \<open>2^(e-52)\<close>, at most \<open>2^1024\<close>, which stands for the overflow.
\<close>

definition round_mag :: "real \<Rightarrow> real" where
  "round_mag m =
     (if m = 0 then 0
      else (let q = pow2 (bexp m - 52) in of_int (round_even (m / q)) * q))"

definition signed_inf :: "bool \<Rightarrow> jsnum" where
  "signed_inf neg = (if neg then NInf else PInf)"

definition signed_zero :: "bool \<Rightarrow> jsnum" where
  "signed_zero neg = (if neg then NegZero else Fin 0)"

text \<open>The number with the sign \<open>neg\<close> and the magnitude nearest to \<open>m\<close>.\<close>

definition js_round :: "bool \<Rightarrow> real \<Rightarrow> jsnum" where
  "js_round neg m =
     (let r = round_mag m
      in if pow2 1024 \<le> r then signed_inf neg
         else if r = 0 then signed_zero neg
         else Fin (if neg then - r else r))"

text \<open>The number a decimal literal of the source denotes, such as \<^verbatim>\<open>0.01\<close>.\<close>

definition js_num :: "real \<Rightarrow> jsnum" where
  "js_num x = js_round (x < 0) \<bar>x\<bar>"

fun isNaN :: "jsnum \<Rightarrow> bool" where
  "isNaN NaN = True"
| "isNaN _ = False"

fun is_inf :: "jsnum \<Rightarrow> bool" where
  "is_inf PInf = True"
| "is_inf NInf = True"
| "is_inf _ = False"

fun is_zero :: "jsnum \<Rightarrow> bool" where
  "is_zero (Fin x) = (x = 0)"
| "is_zero NegZero = True"
| "is_zero _ = False"

fun is_finite :: "jsnum \<Rightarrow> bool" where
  "is_finite (Fin x) = True"
| "is_finite NegZero = True"
| "is_finite _ = False"

text \<open>The real a finite number stands for, and the sign bit of a number that is not NaN.\<close>

fun js_real :: "jsnum \<Rightarrow> real" where
  "js_real (Fin x) = x"
| "js_real _ = 0"

fun js_negative :: "jsnum \<Rightarrow> bool" where
  "js_negative (Fin x) = (x < 0)"
| "js_negative NegZero = True"
| "js_negative NInf = True"
| "js_negative _ = False"

fun js_neg :: "jsnum \<Rightarrow> jsnum" where
  "js_neg (Fin x) = (if x = 0 then NegZero else Fin (- x))"
| "js_neg NegZero = Fin 0"
| "js_neg PInf = NInf"
| "js_neg NInf = PInf"
| "js_neg NaN = NaN"

text \<open>
  Addition. An exact sum of zero is +0, except that -0 plus -0 is -0.
\<close>

definition js_add :: "jsnum \<Rightarrow> jsnum \<Rightarrow> jsnum" where
  "js_add a b =
     (if isNaN a \<or> isNaN b then NaN
      else if a = PInf then (if b = NInf then NaN else PInf)
      else if a = NInf then (if b = PInf then NaN else NInf)
      else if is_inf b then b
      else
        (let r = js_real a + js_real b
         in if r = 0 then signed_zero (a = NegZero \<and> b = NegZero)
            else js_round (r < 0) \<bar>r\<bar>))"

definition js_sub :: "jsnum \<Rightarrow> jsnum \<Rightarrow> jsnum" where
  "js_sub a b = js_add a (js_neg b)"

text \<open>
  Multiplication and division: the sign of the result is the exclusive or of the
  signs, also for a zero and for an infinity.
\<close>

definition js_mul :: "jsnum \<Rightarrow> jsnum \<Rightarrow> jsnum" where
  "js_mul a b =
     (if isNaN a \<or> isNaN b then NaN
      else if is_inf a \<or> is_inf b then
        (if is_zero a \<or> is_zero b then NaN
         else signed_inf (js_negative a \<noteq> js_negative b))
      else js_round (js_negative a \<noteq> js_negative b) (\<bar>js_real a\<bar> * \<bar>js_real b\<bar>))"

definition js_div :: "jsnum \<Rightarrow> jsnum \<Rightarrow> jsnum" where
  "js_div a b =
     (if isNaN a \<or> isNaN b then NaN
      else if is_inf a then
        (if is_inf b then NaN else signed_inf (js_negative a \<noteq> js_negative b))
      else if is_inf b then signed_zero (js_negative a \<noteq> js_negative b)
      else if is_zero b then
        (if is_zero a then NaN else signed_inf (js_negative a \<noteq> js_negative b))
      else js_round (js_negative a \<noteq> js_negative b) (\<bar>js_real a\<bar> / \<bar>js_real b\<bar>))"

text \<open>Comparisons: false when an operand is NaN; the two zeros are equal.\<close>

definition js_lt :: "jsnum \<Rightarrow> jsnum \<Rightarrow> bool" where
  "js_lt a b =
     (if isNaN a \<or> isNaN b then False
      else if a = NInf then b \<noteq> NInf
      else if b = PInf then a \<noteq> PInf
      else if a = PInf \<or> b = NInf then False
      else js_real a < js_real b)"

definition js_gt :: "jsnum \<Rightarrow> jsnum \<Rightarrow> bool" where
  "js_gt a b = js_lt b a"

definition js_le :: "jsnum \<Rightarrow> jsnum \<Rightarrow> bool" where
  "js_le a b =
     (if isNaN a \<or> isNaN b then False
      else if a = NInf \<or> b = PInf then True
      else if a = PInf \<or> b = NInf then False
      else js_real a \<le> js_real b)"

definition js_ge :: "jsnum \<Rightarrow> jsnum \<Rightarrow> bool" where
  "js_ge a b = js_le b a"

text \<open>\<^verbatim>\<open>x || 0\<close> on a number: NaN and the two zeros are the falsy numbers.\<close>

definition or_zero :: "jsnum \<Rightarrow> jsnum" where
  "or_zero x = (if isNaN x \<or> is_zero x then Fin 0 else x)"

text \<open>
  The values \<^verbatim>\<open>JSON.parse\<close> can produce, and \<^verbatim>\<open>undefined\<close> for an absent
  property. An object is the list of its own properties, each name once. A character
  of a string stands for the UTF-16 code unit of the same number, so the strings here
  are those made of code units below 256.
\<close>

datatype jsval =
    Undefined
  | Null
  | Bool bool
  | Number jsnum
  | Str string
  | Arr "jsval list"
  | Obj "(string \<times> jsval) list"

datatype js_error = TypeError | SyntaxError

text \<open>
  Reading a property: \<^verbatim>\<open>null\<close> and \<^verbatim>\<open>undefined\<close> throw, an object gives its
  own property or \<^verbatim>\<open>undefined\<close>. None of the names read by this program
  (\<^verbatim>\<open>event\<close>, \<^verbatim>\<open>msg\<close>, \<^verbatim>\<open>data\<close>, \<^verbatim>\<open>arg\<close>, \<^verbatim>\<open>channel\<close>, \<^verbatim>\<open>instId\<close>, \<^verbatim>\<open>last\<close>,
  \<^verbatim>\<open>open24h\<close>, \<^verbatim>\<open>vol24h\<close>, \<^verbatim>\<open>high24h\<close>, \<^verbatim>\<open>low24h\<close>, \<^verbatim>\<open>ts\<close>) is a built-in property
  of a string, number, boolean or array, so these give \<^verbatim>\<open>undefined\<close>.
\<close>

fun get_prop :: "jsval \<Rightarrow> string \<Rightarrow> js_error + jsval" where
  "get_prop Undefined k = Inl TypeError"
| "get_prop Null k = Inl TypeError"
| "get_prop (Obj kvs) k = Inr (case map_of kvs k of None \<Rightarrow> Undefined | Some v \<Rightarrow> v)"
| "get_prop _ k = Inr Undefined"

text \<open>Optional chaining \<^verbatim>\<open>v?.k\<close>.\<close>

fun get_prop_opt :: "jsval \<Rightarrow> string \<Rightarrow> jsval" where
  "get_prop_opt (Obj kvs) k = (case map_of kvs k of None \<Rightarrow> Undefined | Some v \<Rightarrow> v)"
| "get_prop_opt _ k = Undefined"

fun truthy :: "jsval \<Rightarrow> bool" where
  "truthy Undefined = False"
| "truthy Null = False"
| "truthy (Bool b) = b"
| "truthy (Number n) = (\<not> isNaN n \<and> \<not> is_zero n)"
| "truthy (Str s) = (s \<noteq> [])"
| "truthy _ = True"

fun isArray :: "jsval \<Rightarrow> bool" where
  "isArray (Arr xs) = True"
| "isArray _ = False"

subsection \<open>The conversions of the runtime\<close>

text \<open>
  Converting a value to a string calls the \<^verbatim>\<open>toString\<close> found on it. A value made
  by \<^verbatim>\<open>JSON.parse\<close> never holds a function, so an object with a property of its own
  named \<^verbatim>\<open>toString\<close> has none to call and the conversion throws a TypeError; an array
  converts each of its elements. The limits of the engine (the depth of nesting it
  can convert) are not part of this.
\<close>

fun to_string_throws :: "jsval \<Rightarrow> bool" where
  "to_string_throws (Obj kvs) = (map_of kvs ''toString'' \<noteq> None)"
| "to_string_throws (Arr xs) = list_ex to_string_throws xs"
| "to_string_throws _ = False"

text \<open>
  \<^verbatim>\<open>parseFloat\<close> of ECMAScript on a string: leading white space is skipped, then the
  longest prefix that is a decimal literal (an optional sign, then \<^verbatim>\<open>Infinity\<close> or
  digits with an optional fraction and exponent) is read; NaN when there is none. The
  result is the number nearest to the value read, with the sign read. The white
  space below code unit 256 is tab, line feed, vertical tab, form feed, carriage
  return, space and the no-break space.
\<close>

definition is_ws :: "char \<Rightarrow> bool" where
  "is_ws c = ((of_char c :: nat) \<in> {9, 10, 11, 12, 13, 32, 160})"

definition is_digit :: "char \<Rightarrow> bool" where
  "is_digit c = (48 \<le> (of_char c :: nat) \<and> (of_char c :: nat) \<le> 57)"

definition digits_val :: "string \<Rightarrow> nat" where
  "digits_val ds = foldl (\<lambda>acc c. 10 * acc + ((of_char c :: nat) - 48)) 0 ds"

fun read_sign :: "string \<Rightarrow> bool \<times> string" where
  "read_sign [] = (False, [])"
| "read_sign (c # r) =
     (if c = CHR ''-'' then (True, r) else if c = CHR ''+'' then (False, r) else (False, c # r))"

fun read_fraction :: "string \<Rightarrow> string \<times> string" where
  "read_fraction [] = ([], [])"
| "read_fraction (c # r) =
     (if c = CHR ''.'' then (takeWhile is_digit r, dropWhile is_digit r) else ([], c # r))"

fun read_exponent :: "string \<Rightarrow> int" where
  "read_exponent [] = 0"
| "read_exponent (c # r) =
     (if c = CHR ''e'' \<or> c = CHR ''E'' then
        (let (eneg, r') = read_sign r; ds = takeWhile is_digit r'
         in if ds = [] then 0
            else if eneg then - int (digits_val ds) else int (digits_val ds))
      else 0)"

definition scale10 :: "nat \<Rightarrow> int \<Rightarrow> real" where
  "scale10 m e = (if 0 \<le> e then real m * 10 ^ nat e else real m / 10 ^ nat (- e))"

definition parseFloat_str :: "string \<Rightarrow> jsnum" where
  "parseFloat_str s =
     (let (neg, u) = read_sign (dropWhile is_ws s)
      in if prefix ''Infinity'' u then signed_inf neg
         else
           (let ip = takeWhile is_digit u;
                (fp, r) = read_fraction (dropWhile is_digit u)
            in if ip = [] \<and> fp = [] then NaN
               else js_round neg
                      (scale10 (digits_val (ip @ fp)) (read_exponent r - int (length fp)))))"

text \<open>
  \<^verbatim>\<open>parseFloat\<close> of any value converts it to a string first. \<^verbatim>\<open>undefined\<close>,
  \<^verbatim>\<open>null\<close>, booleans and objects give strings with no numeric prefix; a number
  prints and reads back as itself, -0 printing as \<^verbatim>\<open>0\<close>; an array prints its
  elements separated by commas, so the prefix read is that of its first element.
\<close>

fun parseFloat_val :: "jsval \<Rightarrow> jsnum" where
  "parseFloat_val (Str s) = parseFloat_str s"
| "parseFloat_val (Number n) = (if n = NegZero then Fin 0 else n)"
| "parseFloat_val (Arr (x # xs)) = parseFloat_val x"
| "parseFloat_val _ = NaN"

definition parseFloat :: "jsval \<Rightarrow> js_error + jsnum" where
  "parseFloat v = (if to_string_throws v then Inl TypeError else Inr (parseFloat_val v))"

text \<open>
  \<^verbatim>\<open>new Date(parseInt(v))\<close>: \<^verbatim>\<open>parseInt\<close> converts the value to a string first, the
  date is then a function of the value and is kept as that value.
\<close>

definition date_of_parseInt :: "jsval \<Rightarrow> js_error + jsval" where
  "date_of_parseInt v = (if to_string_throws v then Inl TypeError else Inr v)"

text \<open>
  The two conversions are the runtime's, not the program's: the functions of the
  program that call them take them as an argument, and \<open>ecma\<close> is the runtime
  described above.
\<close>

record runtime =
  rt_parseFloat :: "jsval \<Rightarrow> js_error + jsnum"
  rt_date :: "jsval \<Rightarrow> js_error + jsval"

definition ecma :: runtime where
  "ecma = \<lparr>rt_parseFloat = parseFloat, rt_date = date_of_parseInt\<rparr>"

text \<open>The call gives no number: it throws, or returns NaN.\<close>

definition no_number :: "js_error + jsnum \<Rightarrow> bool" where
  "no_number r = (case r of Inl e \<Rightarrow> True | Inr x \<Rightarrow> isNaN x)"

section \<open>Symbol codec (WebSocketService) and helpers\<close>

text \<open>
  \<^verbatim>\<open>s.replace(pat, '')\<close> with a string pattern removes the first occurrence of the
  pattern, and only that one.
\<close>

fun remove_first :: "string \<Rightarrow> string \<Rightarrow> string" where
  "remove_first pat [] = []"
| "remove_first pat (c # cs) =
     (if prefix pat (c # cs) then drop (length pat) (c # cs) else c # remove_first pat cs)"

definition convertSymbolForOKX :: "string \<Rightarrow> string" where
  "convertSymbolForOKX symbol =
     (if suffix ''USDT'' symbol then remove_first ''USDT'' symbol @ ''-USDT'' else symbol)"

definition convertOKXSymbolBack :: "string \<Rightarrow> string" where
  "convertOKXSymbolBack okxSymbol = remove_first ''-'' okxSymbol"

definition is_upper :: "char \<Rightarrow> bool" where
  "is_upper c = (65 \<le> (of_char c :: nat) \<and> (of_char c :: nat) \<le> 90)"

text \<open>\<^verbatim>\<open>/^[A-Z]{2,10}USDT$/.test(symbol)\<close> on a string.\<close>

definition isValidSymbol :: "string \<Rightarrow> bool" where
  "isValidSymbol symbol =
     (suffix ''USDT'' symbol
      \<and> 2 \<le> length symbol - 4 \<and> length symbol - 4 \<le> 10
      \<and> list_all is_upper (take (length symbol - 4) symbol))"

text \<open>
  \<^verbatim>\<open>calculatePriceChangePercent\<close> of helpers.js; an argument that is not of type
  number makes the first test succeed.
\<close>

fun calculatePriceChangePercent :: "jsval \<Rightarrow> jsval \<Rightarrow> jsnum" where
  "calculatePriceChangePercent (Number currentPrice) (Number previousPrice) =
     (if isNaN currentPrice \<or> isNaN previousPrice \<or> is_zero previousPrice then Fin 0
      else js_mul (js_div (js_sub currentPrice previousPrice) previousPrice) (Fin 100))"
| "calculatePriceChangePercent _ _ = Fin 0"

section \<open>Configuration (config.js)\<close>

definition cfg_reconnectAttempts :: nat where
  "cfg_reconnectAttempts = 5"

definition cfg_reconnectDelay :: nat where
  "cfg_reconnectDelay = 5000"

definition cfg_subscriptionDelay :: nat where
  "cfg_subscriptionDelay = 100"

definition priceChangeThreshold :: jsnum where
  "priceChangeThreshold = js_num 0.01"

definition cooldownPeriod :: int where
  "cooldownPeriod = 60 * 1000"

definition cleanupInterval :: int where
  "cleanupInterval = 15 * 60 * 1000"

definition maxAlertAge :: int where
  "maxAlertAge = 60 * 60 * 1000"

record thresholds =
  min_th :: jsnum
  max_th :: jsnum

definition cfg_thresholds :: "(string \<times> thresholds) list" where
  "cfg_thresholds =
     [(''SOLUSDT'', \<lparr>min_th = Fin 143, max_th = Fin 143\<rparr>),
      (''ETHUSDT'', \<lparr>min_th = Fin 2400, max_th = Fin 2400\<rparr>),
      (''BTCUSDT'', \<lparr>min_th = Fin 108000, max_th = Fin 108000\<rparr>),
      (''DOGEUSDT'', \<lparr>min_th = js_num 0.165, max_th = js_num 0.165\<rparr>),
      (''OKBUSDT'', \<lparr>min_th = Fin 51, max_th = Fin 51\<rparr>),
      (''BNBUSDT'', \<lparr>min_th = Fin 630, max_th = Fin 630\<rparr>),
      (''APTUSDT'', \<lparr>min_th = Fin 4.5, max_th = Fin 4.5\<rparr>)]"

section \<open>Inbound frames (WebSocketService)\<close>

text \<open>
  The object built by \<^verbatim>\<open>_parsePriceData\<close>. \<^verbatim>\<open>lastUpdate\<close> is the date built from
  \<^verbatim>\<open>parseInt(item.ts)\<close>, as the runtime gives it.
\<close>

record tick =
  symbol :: string
  price :: jsnum
  priceChange :: jsnum
  priceChangePercent :: jsnum
  volume :: jsnum
  high24h :: jsnum
  low24h :: jsnum
  lastUpdate :: jsval

definition bind_err :: "js_error + 'a \<Rightarrow> ('a \<Rightarrow> js_error + 'b) \<Rightarrow> js_error + 'b" where
  "bind_err r f = (case r of Inl e \<Rightarrow> Inl e | Inr v \<Rightarrow> f v)"

text \<open>
  \<^verbatim>\<open>_convertOKXSymbolBack(item.instId)\<close> calls \<^verbatim>\<open>.replace\<close> on the value: only a
  string has that method, every other value throws a TypeError.
\<close>

fun convertOKXSymbolBack_of :: "jsval \<Rightarrow> js_error + string" where
  "convertOKXSymbolBack_of (Str s) = Inr (convertOKXSymbolBack s)"
| "convertOKXSymbolBack_of _ = Inl TypeError"

text \<open>
  The body of the \<^verbatim>\<open>try\<close> block of \<^verbatim>\<open>_parsePriceData\<close>, statement by statement:
  every property read and every conversion may throw.
\<close>

definition parsePriceData_try :: "runtime \<Rightarrow> jsval \<Rightarrow> js_error + tick option" where
  "parsePriceData_try rt item =
     bind_err (get_prop item ''instId'') (\<lambda>inst.
     bind_err (convertOKXSymbolBack_of inst) (\<lambda>smb.
     bind_err (get_prop item ''last'') (\<lambda>l.
     bind_err (rt_parseFloat rt l) (\<lambda>last.
     bind_err (get_prop item ''open24h'') (\<lambda>opn.
     bind_err (rt_parseFloat rt opn) (\<lambda>open24h.
       if isNaN last \<or> isNaN open24h then Inr None
       else
         bind_err (get_prop item ''vol24h'') (\<lambda>v.
         bind_err (rt_parseFloat rt v) (\<lambda>vol.
         bind_err (get_prop item ''high24h'') (\<lambda>h.
         bind_err (rt_parseFloat rt h) (\<lambda>high.
         bind_err (get_prop item ''low24h'') (\<lambda>lo.
         bind_err (rt_parseFloat rt lo) (\<lambda>low.
         bind_err (get_prop item ''ts'') (\<lambda>t.
         bind_err (rt_date rt t) (\<lambda>date.
           Inr (Some \<lparr>symbol = smb,
                      price = last,
                      priceChange = js_sub last open24h,
                      priceChangePercent =
                        js_mul (js_div (js_sub last open24h) open24h) (Fin 100),
                      volume = or_zero vol,
                      high24h = or_zero high,
                      low24h = or_zero low,
                      lastUpdate = date\<rparr>)))))))))))))))"

text \<open>\<^verbatim>\<open>_parsePriceData\<close>: the \<^verbatim>\<open>catch\<close> turns every exception into \<^verbatim>\<open>null\<close>.\<close>

definition parsePriceData :: "runtime \<Rightarrow> jsval \<Rightarrow> tick option" where
  "parsePriceData rt item =
     (case parsePriceData_try rt item of Inl e \<Rightarrow> None | Inr r \<Rightarrow> r)"

datatype error_payload = Thrown js_error | Error_msg jsval | Socket_error

datatype ws_event =
    Connected
  | Disconnected nat string
  | Error error_payload
  | PriceUpdate tick
  | MaxReconnectAttemptsReached

text \<open>The \<^verbatim>\<open>forEach\<close> of \<^verbatim>\<open>_handleMessage\<close>: one priceUpdate per item that parses.\<close>

fun emit_ticks :: "runtime \<Rightarrow> jsval list \<Rightarrow> ws_event list" where
  "emit_ticks rt [] = []"
| "emit_ticks rt (item # rest) =
     (case parsePriceData rt item of
        None \<Rightarrow> emit_ticks rt rest
      | Some cryptoData \<Rightarrow> PriceUpdate cryptoData # emit_ticks rt rest)"

fun array_items :: "jsval \<Rightarrow> jsval list" where
  "array_items (Arr xs) = xs"
| "array_items _ = []"

text \<open>
  \<^verbatim>\<open>_handleMessage\<close>: the events emitted, or the exception thrown. \<^verbatim>\<open>new Error(data.msg)\<close>
  converts the message to a string.
\<close>

definition handleMessage :: "runtime \<Rightarrow> jsval \<Rightarrow> js_error + ws_event list" where
  "handleMessage rt data =
     bind_err (get_prop data ''event'') (\<lambda>ev.
       if ev = Str ''subscribe'' then Inr []
       else if ev = Str ''error'' then
         bind_err (get_prop data ''msg'') (\<lambda>msg.
           if to_string_throws msg then Inl TypeError else Inr [Error (Error_msg msg)])
       else
         bind_err (get_prop data ''data'') (\<lambda>d.
         bind_err (get_prop data ''arg'') (\<lambda>arg.
           if truthy d \<and> isArray d \<and> get_prop_opt arg ''channel'' = Str ''tickers''
           then Inr (emit_ticks rt (array_items d))
           else Inr [])))"

text \<open>
  The \<^verbatim>\<open>message\<close> handler of \<^verbatim>\<open>connect\<close>. Its argument is the result of
  \<^verbatim>\<open>JSON.parse\<close>, None when that threw; whatever is thrown is caught and emitted as
  an error event.
\<close>

definition on_message :: "runtime \<Rightarrow> jsval option \<Rightarrow> ws_event list" where
  "on_message rt parsed =
     (case parsed of
        None \<Rightarrow> [Error (Thrown SyntaxError)]
      | Some parsedData \<Rightarrow>
          (case handleMessage rt parsedData of
             Inl e \<Rightarrow> [Error (Thrown e)]
           | Inr evs \<Rightarrow> evs))"

section \<open>NotificationService\<close>

text \<open>
  \<^verbatim>\<open>sentAlerts\<close> maps an alert key to the time it was recorded (milliseconds).
  \<^verbatim>\<open>cooldownTimers\<close> are the pending \<^verbatim>\<open>setTimeout\<close> callbacks that delete a key, each
  with the time it is due.
\<close>

record notification_service =
  sentAlerts :: "string \<rightharpoonup> int"
  cooldownTimers :: "(int \<times> string) list"

text \<open>
  How the promise of \<^verbatim>\<open>_sendToWechat\<close> settles: resolved with the webhook's verdict,
  or rejected (an exception inside the request set-up).
\<close>

datatype send_outcome = Resolved bool | Rejected

text \<open>The first test of \<^verbatim>\<open>sendWechatAlert\<close>: \<^verbatim>\<open>alertKey && this.sentAlerts.has(alertKey)\<close>.\<close>

definition alert_is_duplicate :: "string option \<Rightarrow> notification_service \<Rightarrow> bool" where
  "alert_is_duplicate alertKey ns =
     (case alertKey of
        None \<Rightarrow> False
      | Some k \<Rightarrow> k \<noteq> [] \<and> sentAlerts ns k \<noteq> None)"

text \<open>
  What \<^verbatim>\<open>sendWechatAlert\<close> does after the \<^verbatim>\<open>await\<close>, at time \<open>now\<close>, and the value
  it returns.
\<close>

definition sendWechatAlert_settle ::
  "string option \<Rightarrow> send_outcome \<Rightarrow> int \<Rightarrow> notification_service \<Rightarrow> bool \<times> notification_service" where
  "sendWechatAlert_settle alertKey outcome now ns =
     (case outcome of
        Rejected \<Rightarrow> (False, ns)
      | Resolved success \<Rightarrow>
          (case alertKey of
             None \<Rightarrow> (success, ns)
           | Some k \<Rightarrow>
               if success \<and> k \<noteq> [] then
                 (success,
                  ns\<lparr>sentAlerts := (sentAlerts ns)(k \<mapsto> now),
                     cooldownTimers := cooldownTimers ns @ [(now + cooldownPeriod, k)]\<rparr>)
               else (success, ns)))"

text \<open>
  A whole call of \<^verbatim>\<open>sendWechatAlert\<close> during which nothing else runs: the webhook
  has answered by the time \<open>now\<close>.
\<close>

definition sendWechatAlert ::
  "string option \<Rightarrow> send_outcome \<Rightarrow> int \<Rightarrow> notification_service \<Rightarrow> bool \<times> notification_service" where
  "sendWechatAlert alertKey outcome now ns =
     (if alert_is_duplicate alertKey ns then (False, ns)
      else sendWechatAlert_settle alertKey outcome now ns)"

text \<open>The cooldown callbacks that are due at time \<open>now\<close> run, each deleting its key.\<close>

definition fire_timers :: "int \<Rightarrow> notification_service \<Rightarrow> notification_service" where
  "fire_timers now ns =
     ns\<lparr>sentAlerts :=
          fold (\<lambda>(due, k) m. if due \<le> now then m(k := None) else m)
            (cooldownTimers ns) (sentAlerts ns),
        cooldownTimers := filter (\<lambda>(due, k). now < due) (cooldownTimers ns)\<rparr>"

text \<open>The callback of \<^verbatim>\<open>startCleanupTask\<close>, and \<^verbatim>\<open>clearAllAlerts\<close>.\<close>

definition cleanupTask :: "int \<Rightarrow> notification_service \<Rightarrow> notification_service" where
  "cleanupTask now ns =
     ns\<lparr>sentAlerts :=
          (\<lambda>key. case sentAlerts ns key of
                   None \<Rightarrow> None
                 | Some timestamp \<Rightarrow>
                     if now - timestamp > maxAlertAge then None else Some timestamp)\<rparr>"

definition clearAllAlerts :: "notification_service \<Rightarrow> notification_service" where
  "clearAllAlerts ns = ns\<lparr>sentAlerts := Map.empty\<rparr>"

definition new_notification_service :: notification_service where
  "new_notification_service = \<lparr>sentAlerts = Map.empty, cooldownTimers = []\<rparr>"

text \<open>
  A dispatch attempt at time \<open>now\<close>: the timers due by then have run, then the call
  is made.
\<close>

definition dispatch_at ::
  "int \<Rightarrow> string option \<Rightarrow> send_outcome \<Rightarrow> notification_service \<Rightarrow> bool \<times> notification_service" where
  "dispatch_at now alertKey outcome ns = sendWechatAlert alertKey outcome now (fire_timers now ns)"

text \<open>
  What happens to the service over time: the webhook answers a request that a call of
  \<^verbatim>\<open>sendWechatAlert\<close> started (the call resumes after its \<^verbatim>\<open>await\<close>), or the
  periodic sweep runs; each at its time and after the callbacks due by then. The
  calls need not be whole: a request may be answered while others are under way.
\<close>

datatype ns_event = Answered "string option" send_outcome | Sweep

fun ns_step :: "int \<Rightarrow> ns_event \<Rightarrow> notification_service \<Rightarrow> notification_service" where
  "ns_step now (Answered alertKey outcome) ns =
     snd (sendWechatAlert_settle alertKey outcome now (fire_timers now ns))"
| "ns_step now Sweep ns = cleanupTask now (fire_timers now ns)"

fun ns_run :: "(int \<times> ns_event) list \<Rightarrow> notification_service \<Rightarrow> notification_service" where
  "ns_run [] ns = ns"
| "ns_run ((now, ev) # rest) ns = ns_run rest (ns_step now ev ns)"

fun is_answer_of :: "string \<Rightarrow> ns_event \<Rightarrow> bool" where
  "is_answer_of k (Answered alertKey outcome) = (alertKey = Some k)"
| "is_answer_of k Sweep = False"

text \<open>No cooldown callback is pending for the key \<open>k\<close>.\<close>

definition no_timer_for :: "string \<Rightarrow> notification_service \<Rightarrow> bool" where
  "no_timer_for k ns = list_all (\<lambda>t. snd t \<noteq> k) (cooldownTimers ns)"

text \<open>
  The key \<open>k\<close> is inside the window opened at \<open>t1\<close>: it has a record, made at
  \<open>t1\<close> or later, and none of its callbacks is due before \<open>t1\<close> plus the cooldown
  period.
\<close>

definition in_window :: "string \<Rightarrow> int \<Rightarrow> notification_service \<Rightarrow> bool" where
  "in_window k t1 ns =
     ((\<exists>ts. sentAlerts ns k = Some ts \<and> t1 \<le> ts)
      \<and> (\<forall>(due, k') \<in> set (cooldownTimers ns). k' = k \<longrightarrow> t1 + cooldownPeriod \<le> due))"

section \<open>PriceMonitorService\<close>

text \<open>
  \<^verbatim>\<open>cryptoData\<close> is a Map; \<^verbatim>\<open>priceThresholds\<close> is a plain object read by symbol, taken
  here as the map of its own properties, with numbers for \<^verbatim>\<open>min\<close> and \<^verbatim>\<open>max\<close>.
\<close>

record price_monitor =
  cryptoData :: "string \<rightharpoonup> tick"
  priceThresholds :: "string \<rightharpoonup> thresholds"
  notificationService :: notification_service

definition new_price_monitor :: price_monitor where
  "new_price_monitor =
     \<lparr>cryptoData = Map.empty,
      priceThresholds = map_of cfg_thresholds,
      notificationService = new_notification_service\<rparr>"

text \<open>The \<^verbatim>\<open>type\<close> argument of \<^verbatim>\<open>_handlePriceExceeded\<close>: \<^verbatim>\<open>'max'\<close> or \<^verbatim>\<open>'min'\<close>.\<close>

datatype exceed_type = Exceed_max | Exceed_min

fun type_name :: "exceed_type \<Rightarrow> string" where
  "type_name Exceed_max = ''max''"
| "type_name Exceed_min = ''min''"

definition alertKey_of :: "string \<Rightarrow> exceed_type \<Rightarrow> string" where
  "alertKey_of smb ty = smb @ ''_'' @ type_name ty @ ''_price_exceeded''"

text \<open>
  The values \<^verbatim>\<open>_generateAlertMessage\<close> writes into its template, in the order of
  the template. The emoji and the direction text are fixed by the type, the sign
  shown is \<^verbatim>\<open>'+'\<close> when the percentage is \<^verbatim>\<open>>= 0\<close>; the digits printed by
  \<^verbatim>\<open>toFixed\<close> and the clock time are not modelled.
\<close>

record alert_message =
  msg_type :: exceed_type
  msg_symbol :: string
  msg_price :: jsnum
  msg_threshold :: jsnum
  msg_plus_sign :: bool
  msg_percent :: jsnum
  msg_new_min :: jsnum
  msg_new_max :: jsnum

datatype monitor_effect =
    Warn_no_thresholds string
  | Webhook_post alert_message string
  | Duplicate_skipped string

definition updateThresholds :: "string \<Rightarrow> jsnum \<Rightarrow> price_monitor \<Rightarrow> price_monitor" where
  "updateThresholds smb currentPrice pm =
     (let changeThreshold = priceChangeThreshold
      in pm\<lparr>priceThresholds := (priceThresholds pm)(smb \<mapsto>
              \<lparr>min_th = js_mul currentPrice (js_sub (Fin 1) changeThreshold),
               max_th = js_mul currentPrice (js_add (Fin 1) changeThreshold)\<rparr>)\<rparr>)"

text \<open>
  \<^verbatim>\<open>_generateAlertMessage\<close> reads the thresholds stored for the symbol; reading
  \<^verbatim>\<open>.min\<close> of a missing entry would throw.
\<close>

definition generateAlertMessage ::
  "string \<Rightarrow> tick \<Rightarrow> exceed_type \<Rightarrow> jsnum \<Rightarrow> price_monitor \<Rightarrow> js_error + alert_message" where
  "generateAlertMessage smb d ty threshold pm =
     (case priceThresholds pm smb of
        None \<Rightarrow> Inl TypeError
      | Some newThresholds \<Rightarrow>
          Inr \<lparr>msg_type = ty,
               msg_symbol = smb,
               msg_price = price d,
               msg_threshold = threshold,
               msg_plus_sign = js_ge (priceChangePercent d) (Fin 0),
               msg_percent = priceChangePercent d,
               msg_new_min = min_th newThresholds,
               msg_new_max = max_th newThresholds\<rparr>)"

text \<open>
  \<^verbatim>\<open>_handlePriceExceeded\<close>. The call of \<^verbatim>\<open>sendWechatAlert\<close> is not awaited: within
  this call only its first test runs and, when the key is not a duplicate, the
  webhook request is started; the answer arrives later (\<open>alert_settled\<close>).
\<close>

definition handlePriceExceeded ::
  "string \<Rightarrow> tick \<Rightarrow> exceed_type \<Rightarrow> jsnum \<Rightarrow> price_monitor
     \<Rightarrow> js_error + (price_monitor \<times> monitor_effect list)" where
  "handlePriceExceeded smb d ty threshold pm =
     (let pm1 = updateThresholds smb (price d) pm
      in bind_err (generateAlertMessage smb d ty threshold pm1) (\<lambda>message.
           (let alertKey = alertKey_of smb ty
            in if alert_is_duplicate (Some alertKey) (notificationService pm1)
               then Inr (pm1, [Duplicate_skipped alertKey])
               else Inr (pm1, [Webhook_post message alertKey]))))"

definition alert_settled ::
  "string \<Rightarrow> send_outcome \<Rightarrow> int \<Rightarrow> price_monitor \<Rightarrow> price_monitor" where
  "alert_settled alertKey outcome now pm =
     pm\<lparr>notificationService :=
          snd (sendWechatAlert_settle (Some alertKey) outcome now (notificationService pm))\<rparr>"

text \<open>The cooldown callbacks of the monitor's notification service that are due run.\<close>

definition timers_run :: "int \<Rightarrow> price_monitor \<Rightarrow> price_monitor" where
  "timers_run now pm = pm\<lparr>notificationService := fire_timers now (notificationService pm)\<rparr>"

definition checkPriceThresholds ::
  "string \<Rightarrow> tick \<Rightarrow> tick option \<Rightarrow> price_monitor
     \<Rightarrow> js_error + (price_monitor \<times> monitor_effect list)" where
  "checkPriceThresholds smb d previousData pm =
     (case priceThresholds pm smb of
        None \<Rightarrow> Inr (pm, [Warn_no_thresholds smb])
      | Some th \<Rightarrow>
          if js_gt (price d) (max_th th) then handlePriceExceeded smb d Exceed_max (max_th th) pm
          else if js_lt (price d) (min_th th) then handlePriceExceeded smb d Exceed_min (min_th th) pm
          else Inr (pm, []))"

text \<open>
  \<^verbatim>\<open>updateCryptoData\<close>; \<^verbatim>\<open>_logPriceChange\<close> only writes to the console and is left out.
\<close>

definition updateCryptoData ::
  "string \<Rightarrow> tick \<Rightarrow> price_monitor \<Rightarrow> js_error + (price_monitor \<times> monitor_effect list)" where
  "updateCryptoData smb d pm =
     (let previousData = cryptoData pm smb;
          pm1 = pm\<lparr>cryptoData := (cryptoData pm)(smb \<mapsto> d)\<rparr>
      in checkPriceThresholds smb d previousData pm1)"

definition getThresholds :: "string \<Rightarrow> price_monitor \<Rightarrow> thresholds option" where
  "getThresholds smb pm = priceThresholds pm smb"

definition setThresholds :: "string \<Rightarrow> jsnum \<Rightarrow> jsnum \<Rightarrow> price_monitor \<Rightarrow> price_monitor" where
  "setThresholds smb mn mx pm =
     pm\<lparr>priceThresholds := (priceThresholds pm)(smb \<mapsto> \<lparr>min_th = mn, max_th = mx\<rparr>)\<rparr>"

text \<open>
  index.js binds the priceUpdate event to \<^verbatim>\<open>updateCryptoData(cryptoData.symbol, cryptoData)\<close>;
  the other events are only logged there.
\<close>

fun deliver_events ::
  "ws_event list \<Rightarrow> price_monitor \<Rightarrow> js_error + (price_monitor \<times> monitor_effect list)" where
  "deliver_events [] pm = Inr (pm, [])"
| "deliver_events (PriceUpdate cd # rest) pm =
     bind_err (updateCryptoData (symbol cd) cd pm) (\<lambda>(pm1, effs1).
     bind_err (deliver_events rest pm1) (\<lambda>(pm2, effs2). Inr (pm2, effs1 @ effs2)))"
| "deliver_events (ev # rest) pm = deliver_events rest pm"

text \<open>The invariant of a band, \<^verbatim>\<open>min <= max\<close>, and of all bands stored.\<close>

definition band_ok :: "thresholds \<Rightarrow> bool" where
  "band_ok th = js_le (min_th th) (max_th th)"

definition bands_ok :: "price_monitor \<Rightarrow> bool" where
  "bands_ok pm = (\<forall>th \<in> ran (priceThresholds pm). band_ok th)"

section \<open>Connection state (WebSocketService)\<close>

text \<open>
  The fields of the service that its handlers write: \<open>ws_present\<close> is \<^verbatim>\<open>this.ws\<close>
  not being null, \<open>heartbeatInterval\<close> is the interval timer being set. The set of
  subscribed symbols is read by the resubscription only, which appears here as the
  effect that schedules it. Each function returns the new state and what it did, in
  order: events emitted, timers set or cleared, calls on the socket, and the settling
  of the promise of \<^verbatim>\<open>connect\<close>.
\<close>

record ws_service =
  ws_present :: bool
  isConnected :: bool
  reconnectAttempts :: nat
  heartbeatInterval :: bool

datatype ws_effect =
    Emit ws_event
  | Socket_new
  | Socket_close nat string
  | Heartbeat_started
  | Heartbeat_cleared
  | Resubscribe_in nat
  | Reconnect_in nat
  | Connect_resolved
  | Connect_rejected

definition new_ws_service :: ws_service where
  "new_ws_service =
     \<lparr>ws_present = False, isConnected = False, reconnectAttempts = 0, heartbeatInterval = False\<rparr>"

definition stopHeartbeat :: "ws_service \<Rightarrow> ws_service \<times> ws_effect list" where
  "stopHeartbeat s =
     (if heartbeatInterval s then (s\<lparr>heartbeatInterval := False\<rparr>, [Heartbeat_cleared])
      else (s, []))"

definition startHeartbeat :: "ws_service \<Rightarrow> ws_service \<times> ws_effect list" where
  "startHeartbeat s =
     (let (s1, effs) = stopHeartbeat s
      in (s1\<lparr>heartbeatInterval := True\<rparr>, effs @ [Heartbeat_started]))"

definition attemptReconnect :: "ws_service \<Rightarrow> ws_service \<times> ws_effect list" where
  "attemptReconnect s =
     (if reconnectAttempts s \<ge> cfg_reconnectAttempts then (s, [Emit MaxReconnectAttemptsReached])
      else
        (let s1 = s\<lparr>reconnectAttempts := reconnectAttempts s + 1\<rparr>;
             delay = cfg_reconnectDelay * reconnectAttempts s1
         in (s1, [Reconnect_in delay])))"

text \<open>
  \<^verbatim>\<open>connect\<close> creates the socket; its handlers follow. The connect timeout ends the
  socket, which then reports the failure and the closing like any failed attempt.
\<close>

definition connect :: "ws_service \<Rightarrow> ws_service \<times> ws_effect list" where
  "connect s = (s\<lparr>ws_present := True\<rparr>, [Socket_new])"

definition on_open :: "ws_service \<Rightarrow> ws_service \<times> ws_effect list" where
  "on_open s =
     (let s1 = s\<lparr>isConnected := True, reconnectAttempts := 0\<rparr>;
          (s2, effs) = startHeartbeat s1
      in (s2, effs @ [Resubscribe_in cfg_subscriptionDelay, Connect_resolved]))"

definition on_close :: "nat \<Rightarrow> string \<Rightarrow> ws_service \<Rightarrow> ws_service \<times> ws_effect list" where
  "on_close code reason s =
     (let s1 = s\<lparr>isConnected := False\<rparr>;
          (s2, effs1) = stopHeartbeat s1;
          (s3, effs2) = attemptReconnect s2
      in (s3, effs1 @ [Emit (Disconnected code reason)] @ effs2))"

definition on_error :: "ws_service \<Rightarrow> ws_service \<times> ws_effect list" where
  "on_error s = (s\<lparr>isConnected := False\<rparr>, [Emit (Error Socket_error), Connect_rejected])"

definition disconnect :: "ws_service \<Rightarrow> ws_service \<times> ws_effect list" where
  "disconnect s =
     (let (s1, effs1) = stopHeartbeat s;
          (s2, effs2) =
            (if ws_present s1 then (s1\<lparr>ws_present := False\<rparr>, [Socket_close 1000 ''Normal closure''])
             else (s1, []))
      in (s2\<lparr>isConnected := False, reconnectAttempts := 0\<rparr>, effs1 @ effs2))"

text \<open>What reaches the service: calls by its owner and events of its socket.\<close>

datatype ws_input =
    Call_connect
  | Call_disconnect
  | Socket_open
  | Socket_closed nat string
  | Socket_failed

fun ws_step :: "ws_input \<Rightarrow> ws_service \<Rightarrow> ws_service \<times> ws_effect list" where
  "ws_step Call_connect s = connect s"
| "ws_step Call_disconnect s = disconnect s"
| "ws_step Socket_open s = on_open s"
| "ws_step (Socket_closed code reason) s = on_close code reason s"
| "ws_step Socket_failed s = on_error s"

fun ws_run :: "ws_input list \<Rightarrow> ws_service \<Rightarrow> ws_service \<times> ws_effect list" where
  "ws_run [] s = (s, [])"
| "ws_run (i # rest) s =
     (let (s1, effs1) = ws_step i s; (s2, effs2) = ws_run rest s1 in (s2, effs1 @ effs2))"

text \<open>The delays of the reconnects scheduled, in order.\<close>

fun reconnect_delays :: "ws_effect list \<Rightarrow> nat list" where
  "reconnect_delays [] = []"
| "reconnect_delays (Reconnect_in d # rest) = d # reconnect_delays rest"
| "reconnect_delays (e # rest) = reconnect_delays rest"

text \<open>
  One failed connection attempt: the timer of the reconnect calls \<^verbatim>\<open>connect\<close>, the
  socket reports the failure and then its closing.
\<close>

definition failed_connect :: "ws_input list" where
  "failed_connect = [Call_connect, Socket_failed, Socket_closed 1006 []]"


section \<open>Rounding to binary64\<close>


lemma pow2_powr: "pow2 k = 2 powr (real_of_int k)"
proof (cases "0 \<le> k")
  case True
  have "(2::real) powr real (nat k) = 2 ^ nat k" by (rule powr_realpow) simp
  moreover have "real (nat k) = real_of_int k" using True by simp
  ultimately have "2 powr (real_of_int k) = 2 ^ nat k" by (simp only:)
  then show ?thesis using True by (simp only: pow2_def if_True)
next
  case False
  have "(2::real) powr real (nat (- k)) = 2 ^ nat (- k)" by (rule powr_realpow) simp
  moreover have "real (nat (- k)) = - real_of_int k" using False by simp
  ultimately have "2 powr (- real_of_int k) = 2 ^ nat (- k)" by (simp only:)
  then have "2 powr (real_of_int k) = inverse (2 ^ nat (- k))"
    using powr_minus[of 2 "- real_of_int k"] by (simp only: minus_minus)
  then show ?thesis using False by (simp only: pow2_def if_False inverse_eq_divide)
qed

lemma pow2_pos: "0 < pow2 k"
  by (simp add: pow2_powr)

lemma pow2_add: "pow2 (a + b) = pow2 a * pow2 b"
  by (simp add: pow2_powr powr_add)

lemma pow2_mono: "a \<le> b \<Longrightarrow> pow2 a \<le> pow2 b"
  by (simp add: pow2_powr)

lemma exp_up_spec:
  "pow2 e \<le> m \<Longrightarrow> e \<le> 1023 \<Longrightarrow>
   pow2 (exp_up m e) \<le> m \<and> exp_up m e \<le> 1023
   \<and> (exp_up m e < 1023 \<longrightarrow> m < pow2 (exp_up m e + 1))"
proof (induction m e rule: exp_up.induct)
  case (1 m e)
  show ?case
  proof (cases "m < pow2 (e + 1) \<or> 1023 \<le> e")
    case True
    then have "exp_up m e = e" by (subst exp_up.simps) simp
    then show ?thesis using 1(2,3) True by auto
  next
    case False
    then have eq: "exp_up m e = exp_up m (e + 1)" by (subst exp_up.simps) simp
    from False have "pow2 (e + 1) \<le> m" "e + 1 \<le> 1023" by simp_all
    from 1(1)[OF False this] show ?thesis by (simp add: eq)
  qed
qed

lemma exp_down_spec:
  "m < pow2 (e + 1) \<Longrightarrow> - 1022 \<le> e \<Longrightarrow>
   m < pow2 (exp_down m e + 1) \<and> - 1022 \<le> exp_down m e
   \<and> (- 1022 < exp_down m e \<longrightarrow> pow2 (exp_down m e) \<le> m)"
proof (induction m e rule: exp_down.induct)
  case (1 m e)
  show ?case
  proof (cases "pow2 e \<le> m \<or> e \<le> - 1022")
    case True
    then have "exp_down m e = e" by (subst exp_down.simps) simp
    then show ?thesis using 1(2,3) True by auto
  next
    case False
    then have eq: "exp_down m e = exp_down m (e - 1)" by (subst exp_down.simps) simp
    from False have "m < pow2 (e - 1 + 1)" "- 1022 \<le> e - 1" by simp_all
    from 1(1)[OF False this] show ?thesis by (simp add: eq)
  qed
qed

lemma exp_down_le: "exp_down m e \<le> e"
proof (induction m e rule: exp_down.induct)
  case (1 m e)
  show ?case
  proof (cases "pow2 e \<le> m \<or> e \<le> - 1022")
    case True
    then show ?thesis by (subst exp_down.simps) simp
  next
    case False
    then have eq: "exp_down m e = exp_down m (e - 1)" by (subst exp_down.simps) simp
    from 1[OF False] show ?thesis by (simp add: eq)
  qed
qed

lemma exp_up_ge: "e \<le> 1023 \<Longrightarrow> e \<le> exp_up m e"
proof (induction m e rule: exp_up.induct)
  case (1 m e)
  show ?case
  proof (cases "m < pow2 (e + 1) \<or> 1023 \<le> e")
    case True
    then show ?thesis by (subst exp_up.simps) simp
  next
    case False
    then have eq: "exp_up m e = exp_up m (e + 1)" by (subst exp_up.simps) simp
    from False have "e + 1 \<le> 1023" by simp
    from 1(1)[OF False this] show ?thesis by (simp add: eq)
  qed
qed

lemma bexp_spec:
  "- 1022 \<le> bexp m \<and> bexp m \<le> 1023
   \<and> (- 1022 < bexp m \<longrightarrow> pow2 (bexp m) \<le> m)
   \<and> (bexp m < 1023 \<longrightarrow> m < pow2 (bexp m + 1))"
proof (cases "1 \<le> m")
  case True
  then have "pow2 0 \<le> m" by (simp add: pow2_def)
  from exp_up_spec[OF this] exp_up_ge[of 0 m] True show ?thesis
    by (simp add: bexp_def)
next
  case False
  then have "m < pow2 (- 1 + 1)" by (simp add: pow2_def)
  from exp_down_spec[OF this] exp_down_le[of m "- 1"] False show ?thesis
    by (simp add: bexp_def)
qed

lemma bexp_eq:
  assumes "- 1022 \<le> e" "e \<le> 1023"
    and "- 1022 < e \<longrightarrow> pow2 e \<le> m" and "e < 1023 \<longrightarrow> m < pow2 (e + 1)"
  shows "bexp m = e"
proof (rule ccontr)
  assume ne: "bexp m \<noteq> e"
  note s = bexp_spec[of m]
  show False
  proof (cases "bexp m < e")
    case True
    then have "bexp m < 1023" "- 1022 < e" using assms(2) s by simp_all
    then have "m < pow2 (bexp m + 1)" "pow2 e \<le> m" using s assms(3) by simp_all
    moreover have "pow2 (bexp m + 1) \<le> pow2 e" using True by (intro pow2_mono) simp
    ultimately show False by simp
  next
    case False
    with ne have gt: "e < bexp m" by simp
    then have "e < 1023" "- 1022 < bexp m" using assms(1) s by simp_all
    then have "m < pow2 (e + 1)" "pow2 (bexp m) \<le> m" using s assms(4) by simp_all
    moreover have "pow2 (e + 1) \<le> pow2 (bexp m)" using gt by (intro pow2_mono) simp
    ultimately show False by simp
  qed
qed

lemma bexp_mono:
  assumes "a \<le> b"
  shows "bexp a \<le> bexp b"
proof (rule ccontr)
  assume "\<not> bexp a \<le> bexp b"
  then have lt: "bexp b < bexp a" by simp
  note sa = bexp_spec[of a] and sb = bexp_spec[of b]
  from lt sa sb have "- 1022 < bexp a" "bexp b < 1023" by simp_all
  then have "pow2 (bexp a) \<le> a" "b < pow2 (bexp b + 1)" using sa sb by simp_all
  moreover have "pow2 (bexp b + 1) \<le> pow2 (bexp a)" using lt by (intro pow2_mono) simp
  ultimately show False using assms by simp
qed

lemma round_even_le: "x \<le> of_int k \<Longrightarrow> round_even x \<le> k"
proof -
  assume x: "x \<le> of_int k"
  then have f: "\<lfloor>x\<rfloor> \<le> k" by (simp add: floor_le_iff)
  show ?thesis
  proof (cases "\<lfloor>x\<rfloor> = k")
    case True
    then have "x - of_int \<lfloor>x\<rfloor> \<le> 0" using x by simp
    then show ?thesis using True by (simp add: round_even_def Let_def)
  next
    case False
    with f have "\<lfloor>x\<rfloor> + 1 \<le> k" by simp
    then show ?thesis by (simp add: round_even_def Let_def)
  qed
qed

lemma round_even_ge: "of_int k \<le> x \<Longrightarrow> k \<le> round_even x"
proof -
  assume "of_int k \<le> x"
  then have "k \<le> \<lfloor>x\<rfloor>" by (simp add: le_floor_iff)
  then show ?thesis by (simp add: round_even_def Let_def)
qed

lemma round_even_mono:
  assumes "x \<le> y"
  shows "round_even x \<le> round_even y"
proof (cases "\<lfloor>x\<rfloor> = \<lfloor>y\<rfloor>")
  case True
  have "x - of_int \<lfloor>x\<rfloor> \<le> y - of_int \<lfloor>x\<rfloor>" using assms by simp
  then show ?thesis unfolding round_even_def Let_def True[symmetric]
    by auto
next
  case False
  have "\<lfloor>x\<rfloor> \<le> \<lfloor>y\<rfloor>" using assms by (rule floor_mono)
  with False have "\<lfloor>x\<rfloor> + 1 \<le> \<lfloor>y\<rfloor>" by simp
  moreover have "round_even x \<le> \<lfloor>x\<rfloor> + 1" by (simp add: round_even_def Let_def)
  moreover have "\<lfloor>y\<rfloor> \<le> round_even y" by (simp add: round_even_def Let_def)
  ultimately show ?thesis by linarith
qed

lemma round_mag_nonneg: "0 \<le> m \<Longrightarrow> 0 \<le> round_mag m"
proof -
  assume m: "0 \<le> m"
  have "0 \<le> round_even (m / pow2 (bexp m - 52))"
    using m pow2_pos[of "bexp m - 52"] by (intro round_even_ge) simp
  then show ?thesis using pow2_pos[of "bexp m - 52"]
    by (simp add: round_mag_def Let_def)
qed

lemma round_mag_upper:
  assumes "0 < m" and "bexp m < 1023"
  shows "round_mag m \<le> pow2 (bexp m + 1)"
proof -
  let ?q = "pow2 (bexp m - 52)"
  have q: "0 < ?q" by (rule pow2_pos)
  have split: "pow2 (bexp m + 1) = pow2 53 * ?q"
    using pow2_add[of 53 "bexp m - 52"] by (simp add: algebra_simps)
  have "m < pow2 (bexp m + 1)" using bexp_spec[of m] assms(2) by simp
  then have "m / ?q \<le> pow2 53" using q by (simp add: split pos_divide_le_eq)
  moreover have "pow2 53 = of_int (2 ^ 53)" by (simp add: pow2_def)
  ultimately have "round_even (m / ?q) \<le> 2 ^ 53" by (intro round_even_le) simp
  then have "real_of_int (round_even (m / ?q)) \<le> pow2 53"
    unfolding \<open>pow2 53 = of_int (2 ^ 53)\<close> by (rule of_int_le_iff[THEN iffD2])
  then have "of_int (round_even (m / ?q)) * ?q \<le> pow2 53 * ?q"
    using q by (simp add: mult_right_mono)
  then show ?thesis using assms(1) by (simp add: round_mag_def Let_def split)
qed

lemma round_mag_lower:
  assumes "0 < m" and "- 1022 < bexp m"
  shows "pow2 (bexp m) \<le> round_mag m"
proof -
  let ?q = "pow2 (bexp m - 52)"
  have q: "0 < ?q" by (rule pow2_pos)
  have split: "pow2 (bexp m) = pow2 52 * ?q"
    using pow2_add[of 52 "bexp m - 52"] by (simp add: algebra_simps)
  have "pow2 (bexp m) \<le> m" using bexp_spec[of m] assms(2) by simp
  then have "pow2 52 \<le> m / ?q" using q by (simp add: split pos_le_divide_eq)
  moreover have p: "pow2 52 = of_int (2 ^ 52)" by (simp add: pow2_def)
  ultimately have "2 ^ 52 \<le> round_even (m / ?q)" by (intro round_even_ge) simp
  then have "pow2 52 \<le> real_of_int (round_even (m / ?q))"
    unfolding p by (rule of_int_le_iff[THEN iffD2])
  then have "pow2 52 * ?q \<le> of_int (round_even (m / ?q)) * ?q"
    using q by (simp add: mult_right_mono)
  then show ?thesis using assms(1) by (simp add: round_mag_def Let_def split)
qed

lemma round_mag_mono:
  assumes "0 \<le> a" and "a \<le> b"
  shows "round_mag a \<le> round_mag b"
proof (cases "a = 0")
  case True
  then show ?thesis using round_mag_nonneg[of b] assms by (simp add: round_mag_def)
next
  case False
  then have a: "0 < a" and b: "0 < b" using assms by simp_all
  have le: "bexp a \<le> bexp b" using assms(2) by (rule bexp_mono)
  show ?thesis
  proof (cases "bexp a = bexp b")
    case True
    let ?q = "pow2 (bexp b - 52)"
    have q: "0 < ?q" by (rule pow2_pos)
    have "a / ?q \<le> b / ?q" using assms(2) q by (simp add: divide_right_mono)
    then have "round_even (a / ?q) \<le> round_even (b / ?q)" by (rule round_even_mono)
    then have "real_of_int (round_even (a / ?q)) \<le> real_of_int (round_even (b / ?q))" by simp
    then have "of_int (round_even (a / ?q)) * ?q \<le> of_int (round_even (b / ?q)) * ?q"
      using q by (simp add: mult_right_mono)
    then show ?thesis using a b True by (simp add: round_mag_def Let_def)
  next
    case False
    with le have lt: "bexp a < bexp b" by simp
    then have "bexp a < 1023" "- 1022 < bexp b" using bexp_spec[of a] bexp_spec[of b] by simp_all
    then have "round_mag a \<le> pow2 (bexp a + 1)" "pow2 (bexp b) \<le> round_mag b"
      using round_mag_upper[OF a] round_mag_lower[OF b] by simp_all
    moreover have "pow2 (bexp a + 1) \<le> pow2 (bexp b)" using lt by (intro pow2_mono) simp
    ultimately show ?thesis by linarith
  qed
qed


lemma round_mag_zero: "round_mag 0 = 0"
  by (simp add: round_mag_def)

lemma js_round_not_NaN: "\<not> isNaN (js_round neg m)"
  by (simp add: js_round_def Let_def signed_inf_def signed_zero_def)

lemma js_le_refl: "\<not> isNaN a \<Longrightarrow> js_le a a"
  by (cases a) (simp_all add: js_le_def)

lemma js_round_mono:
  assumes "0 \<le> a" and "a \<le> b"
  shows "js_le (js_round False a) (js_round False b)"
proof -
  have "round_mag a \<le> round_mag b" using assms by (rule round_mag_mono)
  moreover have "0 \<le> round_mag a" using assms(1) by (rule round_mag_nonneg)
  ultimately show ?thesis
    by (simp add: js_round_def Let_def signed_inf_def signed_zero_def js_le_def)
qed

lemmas num_defs = js_num_def js_round_def round_mag_def round_even_def bexp_def pow2_def
  exp_up.simps exp_down.simps signed_inf_def signed_zero_def

lemmas op_defs = js_add_def js_sub_def js_mul_def js_div_def js_lt_def js_gt_def js_le_def
  js_ge_def or_zero_def

lemma threshold_value: "priceChangeThreshold = Fin (5764607523034235 / 2 ^ 59)"
  by (simp add: priceChangeThreshold_def num_defs Let_def)

lemma rebase_factors:
  "js_sub (Fin 1) priceChangeThreshold = Fin (4458563631096791 / 2 ^ 52)"
  "js_add (Fin 1) priceChangeThreshold = Fin (4548635623644201 / 2 ^ 52)"
  by (simp_all add: threshold_value op_defs num_defs Let_def)

text \<open>
  The products are rounded: 0.27 times the lower factor is not the number 0.2673 but
  the next one above it, so a later price of 0.2673 is below that threshold.
\<close>

lemma rebase_rounds:
  "js_mul (js_num 0.27) (js_sub (Fin 1) priceChangeThreshold) = js_num 0.26730000000000004"
  "js_lt (js_num 0.2673) (js_num 0.26730000000000004)"
  unfolding rebase_factors
  by (simp_all add: js_mul_def js_lt_def num_defs Let_def split del: if_split)

section \<open>Reconnect policy\<close>

lemmas ws_defs = on_close_def on_open_def on_error_def connect_def disconnect_def
  attemptReconnect_def stopHeartbeat_def startHeartbeat_def
  cfg_reconnectAttempts_def cfg_reconnectDelay_def cfg_subscriptionDelay_def failed_connect_def

lemma ws_run_append:
  "ws_run (xs @ ys) s =
     (let (s1, e1) = ws_run xs s; (s2, e2) = ws_run ys s1 in (s2, e1 @ e2))"
  by (induction xs arbitrary: s) (simp_all add: split_def Let_def)

lemma reconnect_delays_append:
  "reconnect_delays (xs @ ys) = reconnect_delays xs @ reconnect_delays ys"
  by (induction xs rule: reconnect_delays.induct) simp_all

lemma replicate_five: "concat (replicate 5 xs) = xs @ xs @ xs @ xs @ xs"
  by (simp add: numeral_eq_Suc)

text \<open>One failed attempt, written out: below the cap it schedules, at the cap it gives up.\<close>

lemma failed_connect_run:
  "ws_run failed_connect s =
     (if reconnectAttempts s < 5
      then (s\<lparr>ws_present := True, isConnected := False, heartbeatInterval := False,
               reconnectAttempts := reconnectAttempts s + 1\<rparr>,
            [Socket_new, Emit (Error Socket_error), Connect_rejected]
            @ (if heartbeatInterval s then [Heartbeat_cleared] else [])
            @ [Emit (Disconnected 1006 []), Reconnect_in (5000 * (reconnectAttempts s + 1))])
      else (s\<lparr>ws_present := True, isConnected := False, heartbeatInterval := False\<rparr>,
            [Socket_new, Emit (Error Socket_error), Connect_rejected]
            @ (if heartbeatInterval s then [Heartbeat_cleared] else [])
            @ [Emit (Disconnected 1006 []), Emit MaxReconnectAttemptsReached]))"
  by (simp add: ws_defs Let_def split_def)

lemma failed_connects_attempts:
  "reconnectAttempts s + k \<le> 5 \<Longrightarrow>
   reconnectAttempts (fst (ws_run (concat (replicate k failed_connect)) s)) = reconnectAttempts s + k"
proof (induction k arbitrary: s)
  case 0
  then show ?case by simp
next
  case (Suc k)
  have "reconnectAttempts s < 5" using Suc.prems by simp
  then have st: "reconnectAttempts (fst (ws_run failed_connect s)) = reconnectAttempts s + 1"
    by (simp add: failed_connect_run)
  then have "reconnectAttempts (fst (ws_run failed_connect s)) + k \<le> 5" using Suc.prems by simp
  from Suc.IH[OF this] st show ?case
    by (simp add: ws_run_append split_def Let_def)
qed

lemma map_upt_from_zero: "map f [0..<Suc k] = f 0 # map (\<lambda>i. f (Suc i)) [0..<k]"
proof -
  have "[0..<Suc k] = 0 # map Suc [0..<k]"
    by (simp add: upt_conv_Cons map_Suc_upt del: upt_Suc)
  then show ?thesis by (simp add: comp_def del: upt_Suc)
qed

text \<open>The delay of the \<open>i\<close>-th reconnect in a row of failures is \<open>i\<close> times the base delay.\<close>

lemma failed_connects_delays:
  "reconnectAttempts s + k \<le> 5 \<Longrightarrow>
   reconnect_delays (snd (ws_run (concat (replicate k failed_connect)) s))
     = map (\<lambda>i. 5000 * (reconnectAttempts s + Suc i)) [0..<k]"
proof (induction k arbitrary: s)
  case 0
  then show ?case by simp
next
  case (Suc k)
  have lt: "reconnectAttempts s < 5" using Suc.prems by simp
  then have st: "reconnectAttempts (fst (ws_run failed_connect s)) = reconnectAttempts s + 1"
    by (simp add: failed_connect_run)
  have d: "reconnect_delays (snd (ws_run failed_connect s)) = [5000 * (reconnectAttempts s + 1)]"
    using lt by (simp add: failed_connect_run)
  have "reconnectAttempts (fst (ws_run failed_connect s)) + k \<le> 5" using Suc.prems st by simp
  from Suc.IH[OF this] have
    "reconnect_delays
       (snd (ws_run (concat (replicate k failed_connect)) (fst (ws_run failed_connect s))))
      = map (\<lambda>i. 5000 * (reconnectAttempts s + Suc (Suc i))) [0..<k]"
    by (simp add: st)
  then show ?case using d
    by (simp add: ws_run_append split_def Let_def reconnect_delays_append map_upt_from_zero
             del: upt_Suc)
qed

lemma failed_connects_no_heartbeat:
  "\<not> heartbeatInterval (fst (ws_run (concat (replicate 5 failed_connect)) s))"
proof -
  have "\<not> heartbeatInterval (fst (ws_run failed_connect t))" for t
    by (simp add: failed_connect_run)
  then show ?thesis
    by (simp add: replicate_five ws_run_append split_def Let_def)
qed

text \<open>
  C5. From an attempt counter of 0, five failed connection attempts in a row schedule
  reconnects after 5000, 10000, 15000, 20000 and 25000 ms; the close that follows
  emits maxReconnectAttemptsReached and schedules nothing; below the cap every close
  schedules the base delay times the new attempt number; the open handler sets the
  counter to 0.
\<close>

theorem reconnect_backoff_linear:
  assumes "reconnectAttempts s = 0"
  shows "reconnect_delays (snd (ws_run (concat (replicate 5 failed_connect)) s))
           = [5000, 10000, 15000, 20000, 25000]
       \<and> snd (on_close code reason (fst (ws_run (concat (replicate 5 failed_connect)) s)))
           = [Emit (Disconnected code reason), Emit MaxReconnectAttemptsReached]
       \<and> (reconnectAttempts t < cfg_reconnectAttempts \<longrightarrow>
            reconnect_delays (snd (on_close code reason t))
              = [cfg_reconnectDelay * (reconnectAttempts t + 1)])
       \<and> reconnectAttempts (fst (on_open t)) = 0"
proof -
  let ?s5 = "fst (ws_run (concat (replicate 5 failed_connect)) s)"
  have "[0..<5] = [0, 1, 2, 3, 4::nat]" by (simp add: upt_rec)
  then have delays: "reconnect_delays (snd (ws_run (concat (replicate 5 failed_connect)) s))
           = [5000, 10000, 15000, 20000, 25000]"
    using failed_connects_delays[of s 5] assms by simp
  have five: "reconnectAttempts ?s5 = 5"
    using failed_connects_attempts[of s 5] assms by simp
  have exhausted: "snd (on_close code reason ?s5)
           = [Emit (Disconnected code reason), Emit MaxReconnectAttemptsReached]"
    using five failed_connects_no_heartbeat[of s]
    by (simp add: on_close_def stopHeartbeat_def attemptReconnect_def cfg_reconnectAttempts_def)
  have linear: "reconnectAttempts t < cfg_reconnectAttempts \<longrightarrow>
            reconnect_delays (snd (on_close code reason t))
              = [cfg_reconnectDelay * (reconnectAttempts t + 1)]"
    by (simp add: on_close_def stopHeartbeat_def attemptReconnect_def Let_def)
  have reset: "reconnectAttempts (fst (on_open t)) = 0"
    by (simp add: on_open_def startHeartbeat_def stopHeartbeat_def Let_def split_def)
  from delays exhausted linear reset show ?thesis by blast
qed

theorem reconnect_backoff_linear_witness:
  "reconnectAttempts new_ws_service = 0
   \<and> reconnect_delays (snd (ws_run (concat (replicate 5 failed_connect)) new_ws_service))
        = [5000, 10000, 15000, 20000, 25000]
   \<and> snd (on_close 1006 [] (fst (ws_run (concat (replicate 5 failed_connect)) new_ws_service)))
        = [Emit (Disconnected 1006 []), Emit MaxReconnectAttemptsReached]
   \<and> reconnectAttempts new_ws_service < cfg_reconnectAttempts
   \<and> reconnect_delays (snd (on_close 1006 [] new_ws_service)) = [5000]
   \<and> reconnectAttempts (fst (on_open new_ws_service)) = 0"
proof -
  have z: "reconnectAttempts new_ws_service = 0"
    by (simp add: new_ws_service_def)
  have lt: "reconnectAttempts new_ws_service < cfg_reconnectAttempts"
    by (simp add: new_ws_service_def cfg_reconnectAttempts_def)
  show ?thesis
    using z lt reconnect_backoff_linear[OF z, of 1006 "[]" new_ws_service]
    by (simp add: cfg_reconnectDelay_def)
qed

section \<open>Caller-initiated disconnect\<close>

text \<open>
  C2, as stated, fails: a connection is opened, \<^verbatim>\<open>disconnect()\<close> is called, and the socket then reports
  the closing with code 1000: the close handler schedules a reconnect after 5000 ms.
\<close>

theorem disconnect_then_close_counterexample:
  "snd (ws_run [Call_connect, Socket_open, Call_disconnect, Socket_closed 1000 ''Normal closure'']
          new_ws_service)
     = [Socket_new, Heartbeat_started, Resubscribe_in 100, Connect_resolved,
        Heartbeat_cleared, Socket_close 1000 ''Normal closure'',
        Emit (Disconnected 1000 ''Normal closure''), Reconnect_in 5000]"
  by (simp add: ws_defs new_ws_service_def Let_def split_def)

text \<open>
  C2 (amended). \<^verbatim>\<open>disconnect()\<close> stops the heartbeat timer, closes the socket (when
  there is one) with code 1000, sets the attempt counter to 0 and leaves the service
  not connected, and schedules nothing itself. The close handler does not tell a
  caller-initiated close from any other: the close that follows \<^verbatim>\<open>disconnect()\<close>
  schedules a reconnect after the base delay, as every close does while the counter
  is below the cap.
\<close>

theorem disconnect_close_still_reconnects:
  "heartbeatInterval (fst (disconnect s)) = False
   \<and> isConnected (fst (disconnect s)) = False
   \<and> reconnectAttempts (fst (disconnect s)) = 0
   \<and> ws_present (fst (disconnect s)) = False
   \<and> snd (disconnect s)
        = (if heartbeatInterval s then [Heartbeat_cleared] else [])
          @ (if ws_present s then [Socket_close 1000 ''Normal closure''] else [])
   \<and> snd (on_close code reason (fst (disconnect s)))
        = [Emit (Disconnected code reason), Reconnect_in cfg_reconnectDelay]
   \<and> reconnect_delays (snd (on_close code reason t))
        = (if reconnectAttempts t < cfg_reconnectAttempts
           then [cfg_reconnectDelay * (reconnectAttempts t + 1)] else [])"
  by (simp add: on_close_def disconnect_def attemptReconnect_def stopHeartbeat_def
        cfg_reconnectAttempts_def Let_def split_def)

theorem disconnect_close_still_reconnects_witness:
  "snd (disconnect (fst (on_open (fst (connect new_ws_service)))))
     = [Heartbeat_cleared, Socket_close 1000 ''Normal closure'']
   \<and> snd (on_close 1000 ''Normal closure''
             (fst (disconnect (fst (on_open (fst (connect new_ws_service)))))))
        = [Emit (Disconnected 1000 ''Normal closure''), Reconnect_in 5000]"
  using disconnect_close_still_reconnects
          [of "fst (on_open (fst (connect new_ws_service)))" 1000 "''Normal closure''" new_ws_service]
  by (simp add: ws_defs new_ws_service_def Let_def split_def)

section \<open>Symbol codec\<close>

lemma remove_first_at_end:
  "pat \<noteq> [] \<Longrightarrow> (\<forall>k < length b. \<not> prefix pat (drop k (b @ pat))) \<Longrightarrow>
   remove_first pat (b @ pat) = b"
proof (induction b)
  case Nil
  then show ?case by (cases pat) simp_all
next
  case (Cons x xs)
  have "\<not> prefix pat ((x # xs) @ pat)"
    using Cons.prems(2) by (metis drop0 length_greater_0_conv list.distinct(1))
  moreover have "\<forall>k < length xs. \<not> prefix pat (drop k (xs @ pat))"
  proof (intro allI impI)
    fix k assume "k < length xs"
    then have "Suc k < length (x # xs)" by simp
    from Cons.prems(2)[rule_format, OF this] show "\<not> prefix pat (drop k (xs @ pat))" by simp
  qed
  ultimately show ?case using Cons.IH[OF Cons.prems(1)] by simp
qed

lemma remove_first_char:
  "c \<notin> set b \<Longrightarrow> remove_first [c] (b @ c # r) = b @ r"
  by (induction b) auto

lemma upper_not_dash: "list_all is_upper b \<Longrightarrow> CHR ''-'' \<notin> set b"
  by (induction b) (auto simp: is_upper_def)

text \<open>
  Where the only occurrence of \<^verbatim>\<open>USDT\<close> in a valid symbol is the one at its end,
  converting to the feed's spelling and back gives the symbol again.
\<close>

lemma symbol_roundtrip_when_usdt_only_at_end:
  assumes "isValidSymbol s"
    and "\<forall>k < length s - 4. \<not> prefix ''USDT'' (drop k s)"
  shows "convertOKXSymbolBack (convertSymbolForOKX s) = s"
proof -
  from assms(1) have suf: "suffix ''USDT'' s"
    and up: "list_all is_upper (take (length s - 4) s)"
    by (simp_all add: isValidSymbol_def)
  from suf obtain b where s: "s = b @ ''USDT''" by (auto simp: suffix_def)
  then have tk: "take (length s - 4) s = b" by simp
  have "remove_first ''USDT'' (b @ ''USDT'') = b"
    using assms(2) s by (intro remove_first_at_end) simp_all
  then have "convertSymbolForOKX s = b @ ''-USDT''"
    using suf s by (simp add: convertSymbolForOKX_def)
  moreover have "CHR ''-'' \<notin> set b" using up tk upper_not_dash by simp
  ultimately show ?thesis using s remove_first_char[of "CHR ''-''" b "''USDT''"]
    by (simp add: convertOKXSymbolBack_def)
qed

text \<open>
  C9. The symbol \<^verbatim>\<open>AUSDTBUSDT\<close> matches the canonical format (six capital letters,
  then \<^verbatim>\<open>USDT\<close>). \<^verbatim>\<open>_convertSymbolForOKX\<close> removes the first \<^verbatim>\<open>USDT\<close> it finds, not
  the one at the end, and gives \<^verbatim>\<open>ABUSDT-USDT\<close>; \<^verbatim>\<open>_convertOKXSymbolBack\<close> of that is
  \<^verbatim>\<open>ABUSDTUSDT\<close>, which is not the symbol: the round trip fails here.
\<close>

theorem symbol_codec_roundtrip_fails:
  "isValidSymbol ''AUSDTBUSDT''
   \<and> convertSymbolForOKX ''AUSDTBUSDT'' = ''ABUSDT-USDT''
   \<and> convertOKXSymbolBack (convertSymbolForOKX ''AUSDTBUSDT'') = ''ABUSDTUSDT''
   \<and> convertOKXSymbolBack (convertSymbolForOKX ''AUSDTBUSDT'') \<noteq> ''AUSDTBUSDT''"
  by (simp add: isValidSymbol_def is_upper_def convertSymbolForOKX_def convertOKXSymbolBack_def
        suffix_def)

section \<open>Parsing ticker items\<close>

lemmas pf_defs = parseFloat_def parseFloat_str_def is_ws_def is_digit_def digits_val_def scale10_def

lemma get_prop_Str_instId:
  "get_prop_opt item k = Str s \<Longrightarrow> \<exists>kvs. item = Obj kvs"
  by (cases item) simp_all

lemma isNaN_iff: "isNaN x = (x = NaN)"
  by (cases x) simp_all

lemma bind_err_Inl: "bind_err (Inl e) f = Inl e"
  by (simp add: bind_err_def)

lemma bind_err_Inr: "bind_err (Inr v) f = f v"
  by (simp add: bind_err_def)

text \<open>The conversions of one item, in the order the parser makes them.\<close>

lemma parsePriceData_Obj_Str:
  assumes "get_prop_opt (Obj kvs) ''instId'' = Str s"
  shows "parsePriceData rt (Obj kvs) =
     (case rt_parseFloat rt (get_prop_opt (Obj kvs) ''last'') of
        Inl e \<Rightarrow> None
      | Inr lst \<Rightarrow>
     (case rt_parseFloat rt (get_prop_opt (Obj kvs) ''open24h'') of
        Inl e \<Rightarrow> None
      | Inr opn \<Rightarrow>
          if isNaN lst \<or> isNaN opn then None
          else
     (case rt_parseFloat rt (get_prop_opt (Obj kvs) ''vol24h'') of
        Inl e \<Rightarrow> None
      | Inr vol \<Rightarrow>
     (case rt_parseFloat rt (get_prop_opt (Obj kvs) ''high24h'') of
        Inl e \<Rightarrow> None
      | Inr high \<Rightarrow>
     (case rt_parseFloat rt (get_prop_opt (Obj kvs) ''low24h'') of
        Inl e \<Rightarrow> None
      | Inr low \<Rightarrow>
     (case rt_date rt (get_prop_opt (Obj kvs) ''ts'') of
        Inl e \<Rightarrow> None
      | Inr date \<Rightarrow>
          Some \<lparr>symbol = convertOKXSymbolBack s,
                price = lst,
                priceChange = js_sub lst opn,
                priceChangePercent =
                  js_mul (js_div (js_sub lst opn) opn) (Fin 100),
                volume = or_zero vol,
                high24h = or_zero high,
                low24h = or_zero low,
                lastUpdate = date\<rparr>))))))"
proof -
  have g: "get_prop (Obj kvs) k = Inr (get_prop_opt (Obj kvs) k)" for k by simp
  show ?thesis
    unfolding parsePriceData_def parsePriceData_try_def g bind_err_Inr assms
      convertOKXSymbolBack_of.simps
    by (simp add: bind_err_def split: sum.splits)
qed

lemma parsePriceData_Obj_other:
  assumes "\<And>s. get_prop_opt (Obj kvs) ''instId'' \<noteq> Str s"
  shows "parsePriceData rt (Obj kvs) = None"
proof -
  have g: "get_prop (Obj kvs) k = Inr (get_prop_opt (Obj kvs) k)" for k by simp
  have "convertOKXSymbolBack_of (get_prop_opt (Obj kvs) ''instId'') = Inl TypeError"
    using assms by (cases "get_prop_opt (Obj kvs) ''instId''") simp_all
  then show ?thesis
    unfolding parsePriceData_def parsePriceData_try_def g bind_err_Inr
    by (simp add: bind_err_Inl)
qed

lemma parsePriceData_not_Obj:
  assumes "\<And>kvs. item \<noteq> Obj kvs"
  shows "parsePriceData rt item = None"
proof (cases item)
  case (Obj kvs)
  with assms show ?thesis by blast
qed (simp_all add: parsePriceData_def parsePriceData_try_def bind_err_Inl bind_err_Inr)

text \<open>An item without a string \<^verbatim>\<open>instId\<close> is dropped.\<close>

lemma parsePriceData_needs_instId:
  assumes "\<And>s. get_prop_opt item ''instId'' \<noteq> Str s"
  shows "parsePriceData rt item = None"
proof (cases "\<exists>kvs. item = Obj kvs")
  case True
  then obtain kvs where item: "item = Obj kvs" by blast
  show ?thesis using assms unfolding item by (rule parsePriceData_Obj_other)
next
  case False
  then show ?thesis by (intro parsePriceData_not_Obj) blast
qed

text \<open>What a tick returned by the parser is made of.\<close>

lemma parsePriceData_SomeD:
  assumes "parsePriceData rt item = Some t"
  shows "\<exists>s lst opn vol high low date.
           get_prop_opt item ''instId'' = Str s
         \<and> rt_parseFloat rt (get_prop_opt item ''last'') = Inr lst
         \<and> rt_parseFloat rt (get_prop_opt item ''open24h'') = Inr opn
         \<and> \<not> isNaN lst \<and> \<not> isNaN opn
         \<and> rt_parseFloat rt (get_prop_opt item ''vol24h'') = Inr vol
         \<and> rt_parseFloat rt (get_prop_opt item ''high24h'') = Inr high
         \<and> rt_parseFloat rt (get_prop_opt item ''low24h'') = Inr low
         \<and> rt_date rt (get_prop_opt item ''ts'') = Inr date
         \<and> t = \<lparr>symbol = convertOKXSymbolBack s,
                 price = lst,
                 priceChange = js_sub lst opn,
                 priceChangePercent =
                   js_mul (js_div (js_sub lst opn) opn) (Fin 100),
                 volume = or_zero vol,
                 high24h = or_zero high,
                 low24h = or_zero low,
                 lastUpdate = date\<rparr>"
proof -
  have "\<exists>s. get_prop_opt item ''instId'' = Str s"
    using assms parsePriceData_needs_instId[of item rt] by fastforce
  then obtain s where s: "get_prop_opt item ''instId'' = Str s" by blast
  then obtain kvs where item: "item = Obj kvs" using get_prop_Str_instId by blast
  show ?thesis
    using assms s unfolding item parsePriceData_Obj_Str[OF s[unfolded item]]
    by (auto split: sum.splits if_splits)
qed

lemma parsePriceData_kept:
  assumes "get_prop_opt item ''instId'' = Str s"
    and "rt_parseFloat rt (get_prop_opt item ''last'') = Inr lst"
    and "rt_parseFloat rt (get_prop_opt item ''open24h'') = Inr opn"
    and "\<not> isNaN lst" and "\<not> isNaN opn"
    and "rt_parseFloat rt (get_prop_opt item ''vol24h'') = Inr vol"
    and "rt_parseFloat rt (get_prop_opt item ''high24h'') = Inr high"
    and "rt_parseFloat rt (get_prop_opt item ''low24h'') = Inr low"
    and "rt_date rt (get_prop_opt item ''ts'') = Inr date"
  shows "parsePriceData rt item =
           Some \<lparr>symbol = convertOKXSymbolBack s,
                 price = lst,
                 priceChange = js_sub lst opn,
                 priceChangePercent =
                   js_mul (js_div (js_sub lst opn) opn) (Fin 100),
                 volume = or_zero vol,
                 high24h = or_zero high,
                 low24h = or_zero low,
                 lastUpdate = date\<rparr>"
proof -
  from assms(1) obtain kvs where item: "item = Obj kvs" using get_prop_Str_instId by blast
  show ?thesis
    using assms unfolding item
    by (simp add: parsePriceData_Obj_Str)
qed


lemma ecma_fields:
  "rt_parseFloat ecma = parseFloat" "rt_date ecma = date_of_parseInt"
  by (simp_all add: ecma_def)

text \<open>The conversions used in the examples below.\<close>

lemma parseFloat_examples:
  "parseFloat (Str ''108500.5'') = Inr (Fin 108500.5)"
  "parseFloat (Str ''108000'') = Inr (Fin 108000)"
  "parseFloat (Str ''100000'') = Inr (Fin 100000)"
  "parseFloat (Str ''110000'') = Inr (Fin 110000)"
  "parseFloat (Str ''109000'') = Inr (Fin 109000)"
  "parseFloat (Str ''107000'') = Inr (Fin 107000)"
  "parseFloat (Str ''12.5'') = Inr (Fin 12.5)"
  "parseFloat (Str ''5'') = Inr (Fin 5)"
  "parseFloat (Str ''0'') = Inr (Fin 0)"
  "parseFloat (Str ''-0'') = Inr NegZero"
  "parseFloat (Str ''Infinity'') = Inr PInf"
  "parseFloat (Str ''n/a'') = Inr NaN"
  "parseFloat (Str ''abc'') = Inr NaN"
  "parseFloat (Str [CHR 0xA0, CHR ''5'']) = Inr (Fin 5)"
  "parseFloat Undefined = Inr NaN"
  "parseFloat Null = Inr NaN"
  "parseFloat (Obj [(''toString'', Number (Fin 1))]) = Inl TypeError"
  by (simp_all add: pf_defs num_defs Let_def split del: if_split)

lemma date_examples:
  "date_of_parseInt (Str ''1700000000000'') = Inr (Str ''1700000000000'')"
  "date_of_parseInt Undefined = Inr Undefined"
  by (simp_all add: date_of_parseInt_def)

text \<open>
  C10, as stated, fails: an item with a string \<^verbatim>\<open>instId\<close> and numbers for \<^verbatim>\<open>last\<close> and
  \<^verbatim>\<open>open24h\<close> is kept, with 0 for the three other fields; the same item with the object
  \<^verbatim>\<open>{"toString": 1}\<close> as \<^verbatim>\<open>vol24h\<close> is dropped, since \<^verbatim>\<open>parseFloat\<close> throws on that
  value; and the same item without \<^verbatim>\<open>instId\<close> is dropped too.
\<close>

theorem aux_field_drop_counterexample:
  "parsePriceData ecma (Obj [(''instId'', Str ''BTC-USDT''), (''last'', Str ''108500.5''),
                             (''open24h'', Str ''108000'')])
     = Some \<lparr>symbol = ''BTCUSDT'', price = Fin 108500.5, priceChange = Fin 500.5,
             priceChangePercent = js_num 0.4634259259259259,
             volume = Fin 0, high24h = Fin 0, low24h = Fin 0, lastUpdate = Undefined\<rparr>
   \<and> parsePriceData ecma (Obj [(''instId'', Str ''BTC-USDT''), (''last'', Str ''108500.5''),
                               (''open24h'', Str ''108000''),
                               (''vol24h'', Obj [(''toString'', Number (Fin 1))])])
     = None
   \<and> parsePriceData ecma (Obj [(''last'', Str ''108500.5''), (''open24h'', Str ''108000'')])
     = None"
proof -
  have a: "parsePriceData ecma (Obj [(''instId'', Str ''BTC-USDT''), (''last'', Str ''108500.5''),
                             (''open24h'', Str ''108000'')])
     = Some \<lparr>symbol = ''BTCUSDT'', price = Fin 108500.5, priceChange = Fin 500.5,
             priceChangePercent = js_num 0.4634259259259259,
             volume = Fin 0, high24h = Fin 0, low24h = Fin 0, lastUpdate = Undefined\<rparr>"
    by (subst parsePriceData_Obj_Str[where s = "''BTC-USDT''"])
       (simp_all add: ecma_fields parseFloat_examples date_examples
          convertOKXSymbolBack_def op_defs num_defs Let_def split del: if_split)
  have b: "parsePriceData ecma (Obj [(''instId'', Str ''BTC-USDT''), (''last'', Str ''108500.5''),
                               (''open24h'', Str ''108000''),
                               (''vol24h'', Obj [(''toString'', Number (Fin 1))])])
     = None"
    by (subst parsePriceData_Obj_Str[where s = "''BTC-USDT''"])
       (simp_all add: ecma_fields parseFloat_examples)
  have c: "parsePriceData ecma (Obj [(''last'', Str ''108500.5''), (''open24h'', Str ''108000'')])
     = None"
    by (rule parsePriceData_needs_instId) simp
  from a b c show ?thesis by simp
qed

text \<open>
  C10 (amended). Let the item have a string \<^verbatim>\<open>instId\<close>, let \<^verbatim>\<open>parseFloat\<close> return
  numbers other than NaN for \<^verbatim>\<open>last\<close> and \<^verbatim>\<open>open24h\<close>, and let the conversions of
  \<^verbatim>\<open>vol24h\<close>, \<^verbatim>\<open>high24h\<close>, \<^verbatim>\<open>low24h\<close> and \<^verbatim>\<open>ts\<close> return (not throw). Then the
  item is not dropped: the parser returns a tick in which each of the three fields
  that reads as NaN (or as zero) is 0. And an item is kept only under these conditions:
  it is dropped when \<^verbatim>\<open>instId\<close> is not a string, when \<^verbatim>\<open>last\<close> or \<^verbatim>\<open>open24h\<close> gives
  no number, or when one of the conversions throws. This holds for whatever the
  runtime's conversions return.
\<close>

theorem aux_fields_default_to_zero:
  "(get_prop_opt item ''instId'' = Str s
      \<and> rt_parseFloat rt (get_prop_opt item ''last'') = Inr lst \<and> \<not> isNaN lst
      \<and> rt_parseFloat rt (get_prop_opt item ''open24h'') = Inr opn \<and> \<not> isNaN opn
      \<and> rt_parseFloat rt (get_prop_opt item ''vol24h'') = Inr vol
      \<and> rt_parseFloat rt (get_prop_opt item ''high24h'') = Inr high
      \<and> rt_parseFloat rt (get_prop_opt item ''low24h'') = Inr low
      \<and> rt_date rt (get_prop_opt item ''ts'') = Inr date
    \<longrightarrow> parsePriceData rt item =
          Some \<lparr>symbol = convertOKXSymbolBack s,
                price = lst,
                priceChange = js_sub lst opn,
                priceChangePercent = js_mul (js_div (js_sub lst opn) opn) (Fin 100),
                volume = (if isNaN vol \<or> is_zero vol then Fin 0 else vol),
                high24h = (if isNaN high \<or> is_zero high then Fin 0 else high),
                low24h = (if isNaN low \<or> is_zero low then Fin 0 else low),
                lastUpdate = date\<rparr>)
   \<and> (parsePriceData rt item \<noteq> None \<longrightarrow>
        (\<exists>s lst opn vol high low date.
           get_prop_opt item ''instId'' = Str s
         \<and> rt_parseFloat rt (get_prop_opt item ''last'') = Inr lst \<and> \<not> isNaN lst
         \<and> rt_parseFloat rt (get_prop_opt item ''open24h'') = Inr opn \<and> \<not> isNaN opn
         \<and> rt_parseFloat rt (get_prop_opt item ''vol24h'') = Inr vol
         \<and> rt_parseFloat rt (get_prop_opt item ''high24h'') = Inr high
         \<and> rt_parseFloat rt (get_prop_opt item ''low24h'') = Inr low
         \<and> rt_date rt (get_prop_opt item ''ts'') = Inr date))"
proof -
  have kept: "parsePriceData rt item =
          Some \<lparr>symbol = convertOKXSymbolBack s,
                price = lst,
                priceChange = js_sub lst opn,
                priceChangePercent = js_mul (js_div (js_sub lst opn) opn) (Fin 100),
                volume = (if isNaN vol \<or> is_zero vol then Fin 0 else vol),
                high24h = (if isNaN high \<or> is_zero high then Fin 0 else high),
                low24h = (if isNaN low \<or> is_zero low then Fin 0 else low),
                lastUpdate = date\<rparr>"
    if "get_prop_opt item ''instId'' = Str s"
      and "rt_parseFloat rt (get_prop_opt item ''last'') = Inr lst" and "\<not> isNaN lst"
      and "rt_parseFloat rt (get_prop_opt item ''open24h'') = Inr opn" and "\<not> isNaN opn"
      and "rt_parseFloat rt (get_prop_opt item ''vol24h'') = Inr vol"
      and "rt_parseFloat rt (get_prop_opt item ''high24h'') = Inr high"
      and "rt_parseFloat rt (get_prop_opt item ''low24h'') = Inr low"
      and "rt_date rt (get_prop_opt item ''ts'') = Inr date"
    using parsePriceData_kept[OF that(1,2,4,3,5,6,7,8,9)] by (simp add: or_zero_def)
  have only: "\<exists>s lst opn vol high low date.
           get_prop_opt item ''instId'' = Str s
         \<and> rt_parseFloat rt (get_prop_opt item ''last'') = Inr lst \<and> \<not> isNaN lst
         \<and> rt_parseFloat rt (get_prop_opt item ''open24h'') = Inr opn \<and> \<not> isNaN opn
         \<and> rt_parseFloat rt (get_prop_opt item ''vol24h'') = Inr vol
         \<and> rt_parseFloat rt (get_prop_opt item ''high24h'') = Inr high
         \<and> rt_parseFloat rt (get_prop_opt item ''low24h'') = Inr low
         \<and> rt_date rt (get_prop_opt item ''ts'') = Inr date"
    if "parsePriceData rt item \<noteq> None"
  proof -
    from that obtain t where "parsePriceData rt item = Some t" by blast
    from parsePriceData_SomeD[OF this] show ?thesis by blast
  qed
  from kept only show ?thesis by blast
qed

theorem aux_fields_default_to_zero_witness:
  "get_prop_opt (Obj [(''instId'', Str ''BTC-USDT''), (''last'', Str ''108500.5''),
                      (''open24h'', Str ''108000''), (''vol24h'', Str ''n/a''),
                      (''high24h'', Null), (''ts'', Str ''1700000000000'')]) ''instId''
     = Str ''BTC-USDT''
   \<and> rt_parseFloat ecma (Str ''108500.5'') = Inr (Fin 108500.5) \<and> \<not> isNaN (Fin 108500.5)
   \<and> rt_parseFloat ecma (Str ''108000'') = Inr (Fin 108000) \<and> \<not> isNaN (Fin 108000)
   \<and> rt_parseFloat ecma (Str ''n/a'') = Inr NaN
   \<and> rt_parseFloat ecma Null = Inr NaN
   \<and> rt_parseFloat ecma Undefined = Inr NaN
   \<and> rt_date ecma (Str ''1700000000000'') = Inr (Str ''1700000000000'')
   \<and> parsePriceData ecma (Obj [(''instId'', Str ''BTC-USDT''), (''last'', Str ''108500.5''),
                      (''open24h'', Str ''108000''), (''vol24h'', Str ''n/a''),
                      (''high24h'', Null), (''ts'', Str ''1700000000000'')])
       = Some \<lparr>symbol = ''BTCUSDT'', price = Fin 108500.5, priceChange = Fin 500.5,
               priceChangePercent = js_num 0.4634259259259259,
               volume = Fin 0, high24h = Fin 0, low24h = Fin 0,
               lastUpdate = Str ''1700000000000''\<rparr>"
  using aux_fields_default_to_zero
          [of "Obj [(''instId'', Str ''BTC-USDT''), (''last'', Str ''108500.5''),
                    (''open24h'', Str ''108000''), (''vol24h'', Str ''n/a''),
                    (''high24h'', Null), (''ts'', Str ''1700000000000'')]"
              "''BTC-USDT''" ecma "Fin 108500.5" "Fin 108000" NaN NaN NaN
              "Str ''1700000000000''"]
  by (simp add: ecma_fields parseFloat_examples date_examples
        convertOKXSymbolBack_def op_defs num_defs Let_def split del: if_split)


lemma emit_ticks_append: "emit_ticks rt (xs @ ys) = emit_ticks rt xs @ emit_ticks rt ys"
  by (induction xs) (simp_all split: option.splits)

lemma no_number_dropped:
  assumes "no_number (rt_parseFloat rt (get_prop_opt item ''last''))
           \<or> no_number (rt_parseFloat rt (get_prop_opt item ''open24h''))"
  shows "parsePriceData rt item = None"
proof (cases "parsePriceData rt item")
  case None
  then show ?thesis .
next
  case (Some t)
  from parsePriceData_SomeD[OF this] assms show ?thesis
    by (auto simp add: no_number_def)
qed

lemma on_message_tickers:
  "on_message rt (Some (Obj [(''arg'', Obj [(''channel'', Str ''tickers'')]), (''data'', Arr items)]))
     = emit_ticks rt items"
  by (simp add: on_message_def handleMessage_def bind_err_Inr)

lemma handleMessage_data_only:
  "emit_ticks rt xs = emit_ticks rt ys \<Longrightarrow>
   handleMessage rt (Obj ((''data'', Arr xs) # rest))
     = handleMessage rt (Obj ((''data'', Arr ys) # rest))"
  by (simp add: handleMessage_def bind_err_Inr)

lemmas mon_defs = updateCryptoData_def checkPriceThresholds_def handlePriceExceeded_def
  generateAlertMessage_def updateThresholds_def alertKey_of_def alert_is_duplicate_def

text \<open>
  C6, as stated, fails: an item whose \<^verbatim>\<open>last\<close> reads \<^verbatim>\<open>Infinity\<close> does not parse as a
  finite number, yet it is not dropped; the tick is emitted and stored as the latest
  price of its symbol.
\<close>

theorem infinite_tick_counterexample:
  "parsePriceData ecma (Obj [(''instId'', Str ''BTC-USDT''), (''last'', Str ''Infinity''),
                        (''open24h'', Str ''108000''), (''vol24h'', Str ''12.5''),
                        (''high24h'', Str ''109000''), (''low24h'', Str ''107000''),
                        (''ts'', Str ''1700000000000'')])
     = Some \<lparr>symbol = ''BTCUSDT'', price = PInf, priceChange = PInf, priceChangePercent = PInf,
             volume = Fin 12.5, high24h = Fin 109000, low24h = Fin 107000,
             lastUpdate = Str ''1700000000000''\<rparr>
   \<and> deliver_events
        (on_message ecma (Some (Obj [(''arg'', Obj [(''channel'', Str ''tickers'')]),
           (''data'', Arr [Obj [(''instId'', Str ''BTC-USDT''), (''last'', Str ''Infinity''),
                   (''open24h'', Str ''108000''), (''vol24h'', Str ''12.5''),
                   (''high24h'', Str ''109000''), (''low24h'', Str ''107000''),
                   (''ts'', Str ''1700000000000'')]])])))
        new_price_monitor
     = Inr (setThresholds ''BTCUSDT'' PInf PInf new_price_monitor
              \<lparr>cryptoData := [''BTCUSDT'' \<mapsto>
                 \<lparr>symbol = ''BTCUSDT'', price = PInf, priceChange = PInf,
                  priceChangePercent = PInf, volume = Fin 12.5, high24h = Fin 109000,
                  low24h = Fin 107000, lastUpdate = Str ''1700000000000''\<rparr>]\<rparr>,
            [Webhook_post
               \<lparr>msg_type = Exceed_max, msg_symbol = ''BTCUSDT'', msg_price = PInf,
                msg_threshold = Fin 108000, msg_plus_sign = True, msg_percent = PInf,
                msg_new_min = PInf, msg_new_max = PInf\<rparr>
               ''BTCUSDT_max_price_exceeded''])"
proof -
  have p: "parsePriceData ecma (Obj [(''instId'', Str ''BTC-USDT''), (''last'', Str ''Infinity''),
                        (''open24h'', Str ''108000''), (''vol24h'', Str ''12.5''),
                        (''high24h'', Str ''109000''), (''low24h'', Str ''107000''),
                        (''ts'', Str ''1700000000000'')])
     = Some \<lparr>symbol = ''BTCUSDT'', price = PInf, priceChange = PInf, priceChangePercent = PInf,
             volume = Fin 12.5, high24h = Fin 109000, low24h = Fin 107000,
             lastUpdate = Str ''1700000000000''\<rparr>"
    by (subst parsePriceData_Obj_Str[where s = "''BTC-USDT''"])
       (simp_all add: ecma_fields parseFloat_examples date_examples
          convertOKXSymbolBack_def op_defs signed_inf_def)
  show ?thesis
    unfolding on_message_tickers
    by (simp add: p mon_defs rebase_factors setThresholds_def new_price_monitor_def
          new_notification_service_def cfg_thresholds_def bind_err_Inr
          js_mul_def js_gt_def js_lt_def js_ge_def js_le_def signed_inf_def)
qed

text \<open>
  C6 (amended). An item for whose \<^verbatim>\<open>last\<close> or \<^verbatim>\<open>open24h\<close> the call of \<^verbatim>\<open>parseFloat\<close>
  gives no number (it returns NaN, or it throws) is dropped: the parser returns null, a
  frame emits the same events with the item as without it, a frame holding only this
  item emits nothing (no priceUpdate and no error event), and the monitor is left as
  it was. This holds for whatever \<^verbatim>\<open>parseFloat\<close> returns.
\<close>

theorem nan_tick_dropped:
  assumes "no_number (rt_parseFloat rt (get_prop_opt item ''last''))
           \<or> no_number (rt_parseFloat rt (get_prop_opt item ''open24h''))"
  shows "parsePriceData rt item = None
       \<and> on_message rt (Some (Obj ((''data'', Arr (before @ item # after)) # rest)))
           = on_message rt (Some (Obj ((''data'', Arr (before @ after)) # rest)))
       \<and> on_message rt (Some (Obj [(''arg'', Obj [(''channel'', Str ''tickers'')]),
                                    (''data'', Arr [item])])) = []
       \<and> deliver_events
            (on_message rt (Some (Obj [(''arg'', Obj [(''channel'', Str ''tickers'')]),
                                       (''data'', Arr [item])]))) pm = Inr (pm, [])"
proof -
  have none: "parsePriceData rt item = None" using assms by (rule no_number_dropped)
  then have "emit_ticks rt (before @ item # after) = emit_ticks rt (before @ after)"
    by (simp add: emit_ticks_append)
  then have "handleMessage rt (Obj ((''data'', Arr (before @ item # after)) # rest))
           = handleMessage rt (Obj ((''data'', Arr (before @ after)) # rest))"
    by (rule handleMessage_data_only)
  then have same: "on_message rt (Some (Obj ((''data'', Arr (before @ item # after)) # rest)))
           = on_message rt (Some (Obj ((''data'', Arr (before @ after)) # rest)))"
    by (simp add: on_message_def)
  have single: "on_message rt (Some (Obj [(''arg'', Obj [(''channel'', Str ''tickers'')]),
                                 (''data'', Arr [item])])) = []"
    using none by (simp add: on_message_tickers)
  from none same single show ?thesis by simp
qed

theorem nan_tick_dropped_witness:
  "no_number (rt_parseFloat ecma (get_prop_opt (Obj [(''instId'', Str ''BTC-USDT''),
                 (''last'', Str ''abc''), (''open24h'', Str ''108000'')]) ''last''))
   \<and> parsePriceData ecma (Obj [(''instId'', Str ''BTC-USDT''), (''last'', Str ''abc''),
                               (''open24h'', Str ''108000'')]) = None
   \<and> deliver_events
        (on_message ecma (Some (Obj [(''arg'', Obj [(''channel'', Str ''tickers'')]),
           (''data'', Arr [Obj [(''instId'', Str ''BTC-USDT''), (''last'', Str ''abc''),
                                (''open24h'', Str ''108000'')]])])))
        new_price_monitor = Inr (new_price_monitor, [])"
proof -
  have n: "no_number (rt_parseFloat ecma (get_prop_opt (Obj [(''instId'', Str ''BTC-USDT''),
             (''last'', Str ''abc''), (''open24h'', Str ''108000'')]) ''last''))"
    by (simp add: ecma_fields parseFloat_examples no_number_def)
  then have "no_number (rt_parseFloat ecma (get_prop_opt (Obj [(''instId'', Str ''BTC-USDT''),
             (''last'', Str ''abc''), (''open24h'', Str ''108000'')]) ''last''))
          \<or> no_number (rt_parseFloat ecma (get_prop_opt (Obj [(''instId'', Str ''BTC-USDT''),
             (''last'', Str ''abc''), (''open24h'', Str ''108000'')]) ''open24h''))"
    by (rule disjI1)
  from nan_tick_dropped[OF this, of "[]" "[]" "[]" new_price_monitor] n
  show ?thesis by simp
qed

section \<open>Crossings and rebasing (PriceMonitorService)\<close>

lemma alertKey_nonempty: "alertKey_of smb ty \<noteq> []"
  by (simp add: alertKey_of_def)

text \<open>A crossing, written out: what \<^verbatim>\<open>_handlePriceExceeded\<close> returns.\<close>

lemma handlePriceExceeded_result:
  "handlePriceExceeded smb d ty threshold pm =
     (let key = alertKey_of smb ty;
          nb = \<lparr>min_th = js_mul (price d) (js_sub (Fin 1) priceChangeThreshold),
                max_th = js_mul (price d) (js_add (Fin 1) priceChangeThreshold)\<rparr>
      in Inr (pm\<lparr>priceThresholds := (priceThresholds pm)(smb \<mapsto> nb)\<rparr>,
              [if alert_is_duplicate (Some key) (notificationService pm)
               then Duplicate_skipped key
               else Webhook_post
                      \<lparr>msg_type = ty, msg_symbol = smb, msg_price = price d,
                       msg_threshold = threshold,
                       msg_plus_sign = js_ge (priceChangePercent d) (Fin 0),
                       msg_percent = priceChangePercent d,
                       msg_new_min = min_th nb, msg_new_max = max_th nb\<rparr> key]))"
  by (simp add: handlePriceExceeded_def generateAlertMessage_def updateThresholds_def
        bind_err_Inr Let_def)

text \<open>An update of a symbol that has thresholds, written out.\<close>

lemma updateCryptoData_with_band:
  assumes "priceThresholds pm smb = Some th"
  shows "updateCryptoData smb d pm =
     (let stored = pm\<lparr>cryptoData := (cryptoData pm)(smb \<mapsto> d)\<rparr>;
          nb = \<lparr>min_th = js_mul (price d) (js_sub (Fin 1) priceChangeThreshold),
                max_th = js_mul (price d) (js_add (Fin 1) priceChangeThreshold)\<rparr>;
          rebased = stored\<lparr>priceThresholds := (priceThresholds pm)(smb \<mapsto> nb)\<rparr>;
          alert = (\<lambda>ty threshold.
                    if alert_is_duplicate (Some (alertKey_of smb ty)) (notificationService pm)
                    then Duplicate_skipped (alertKey_of smb ty)
                    else Webhook_post
                           \<lparr>msg_type = ty, msg_symbol = smb, msg_price = price d,
                            msg_threshold = threshold,
                            msg_plus_sign = js_ge (priceChangePercent d) (Fin 0),
                            msg_percent = priceChangePercent d,
                            msg_new_min = min_th nb, msg_new_max = max_th nb\<rparr>
                           (alertKey_of smb ty))
      in if js_gt (price d) (max_th th) then Inr (rebased, [alert Exceed_max (max_th th)])
         else if js_lt (price d) (min_th th) then Inr (rebased, [alert Exceed_min (min_th th)])
         else Inr (stored, []))"
  using assms
  by (simp add: updateCryptoData_def checkPriceThresholds_def handlePriceExceeded_result Let_def)

lemma band_ok_lt_not_gt:
  "js_le mn mx \<Longrightarrow> js_lt p mn \<Longrightarrow> \<not> js_gt p mx"
  unfolding js_gt_def js_le_def js_lt_def
  by (cases mn; cases mx; cases p) simp_all

lemma updateCryptoData_total:
  "\<exists>pm' effs. updateCryptoData smb d pm = Inr (pm', effs)"
  by (simp add: updateCryptoData_def checkPriceThresholds_def handlePriceExceeded_result Let_def
           split: option.splits)

text \<open>
  C3. For an update of a symbol that has thresholds: a price above \<^verbatim>\<open>max\<close> is an
  upper crossing; otherwise (the test of \<^verbatim>\<open>max\<close> comes first, the first match wins) a
  price below \<^verbatim>\<open>min\<close> is a lower crossing, and so is every price below \<^verbatim>\<open>min\<close> of a
  band with \<^verbatim>\<open>min <= max\<close>; otherwise there is no crossing, and the bands and the alert
  state are as before, only the latest price is stored. On a crossing the thresholds of
  the symbol become \<^verbatim>\<open>price * (1 - 0.01)\<close> and \<^verbatim>\<open>price * (1 + 0.01)\<close>, computed in
  binary64, and the alert carries the type, the threshold crossed and the new
  thresholds.
\<close>

theorem crossing_classification_and_rebase:
  assumes "priceThresholds pm smb = Some th"
  shows
    "(let stored = pm\<lparr>cryptoData := (cryptoData pm)(smb \<mapsto> d)\<rparr>;
          nb = \<lparr>min_th = js_mul (price d) (js_sub (Fin 1) (js_num 0.01)),
                max_th = js_mul (price d) (js_add (Fin 1) (js_num 0.01))\<rparr>;
          rebased = stored\<lparr>priceThresholds := (priceThresholds pm)(smb \<mapsto> nb)\<rparr>;
          alert = (\<lambda>ty threshold.
                    if alert_is_duplicate (Some (alertKey_of smb ty)) (notificationService pm)
                    then Duplicate_skipped (alertKey_of smb ty)
                    else Webhook_post
                           \<lparr>msg_type = ty, msg_symbol = smb, msg_price = price d,
                            msg_threshold = threshold,
                            msg_plus_sign = js_ge (priceChangePercent d) (Fin 0),
                            msg_percent = priceChangePercent d,
                            msg_new_min = min_th nb, msg_new_max = max_th nb\<rparr>
                           (alertKey_of smb ty))
      in (js_gt (price d) (max_th th) \<longrightarrow>
            updateCryptoData smb d pm = Inr (rebased, [alert Exceed_max (max_th th)]))
       \<and> (\<not> js_gt (price d) (max_th th) \<and> js_lt (price d) (min_th th) \<longrightarrow>
            updateCryptoData smb d pm = Inr (rebased, [alert Exceed_min (min_th th)]))
       \<and> (band_ok th \<and> js_lt (price d) (min_th th) \<longrightarrow>
            updateCryptoData smb d pm = Inr (rebased, [alert Exceed_min (min_th th)]))
       \<and> (\<not> js_gt (price d) (max_th th) \<and> \<not> js_lt (price d) (min_th th) \<longrightarrow>
            updateCryptoData smb d pm = Inr (stored, [])))"
proof -
  have "\<not> js_gt (price d) (max_th th)" if "band_ok th" and "js_lt (price d) (min_th th)"
    using that band_ok_lt_not_gt[of "min_th th" "max_th th" "price d"]
    by (simp add: band_ok_def)
  then show ?thesis
    unfolding updateCryptoData_with_band[OF assms] priceChangeThreshold_def
    by (auto simp add: Let_def)
qed

theorem crossing_classification_and_rebase_witness:
  "priceThresholds (setThresholds ''BTCUSDT'' (Fin 100) (Fin 110) new_price_monitor) ''BTCUSDT''
     = Some \<lparr>min_th = Fin 100, max_th = Fin 110\<rparr>
   \<and> js_gt (Fin 111) (Fin 110)
   \<and> updateCryptoData ''BTCUSDT''
        \<lparr>symbol = ''BTCUSDT'', price = Fin 111, priceChange = Fin 3,
         priceChangePercent = Fin 2.5, volume = Fin 0, high24h = Fin 0, low24h = Fin 0,
         lastUpdate = Undefined\<rparr>
        (setThresholds ''BTCUSDT'' (Fin 100) (Fin 110) new_price_monitor)
      = Inr (setThresholds ''BTCUSDT'' (js_num 109.89) (js_num 112.11) new_price_monitor
               \<lparr>cryptoData := [''BTCUSDT'' \<mapsto>
                  \<lparr>symbol = ''BTCUSDT'', price = Fin 111, priceChange = Fin 3,
                   priceChangePercent = Fin 2.5, volume = Fin 0, high24h = Fin 0,
                   low24h = Fin 0, lastUpdate = Undefined\<rparr>]\<rparr>,
             [Webhook_post
                \<lparr>msg_type = Exceed_max, msg_symbol = ''BTCUSDT'', msg_price = Fin 111,
                 msg_threshold = Fin 110, msg_plus_sign = True, msg_percent = Fin 2.5,
                 msg_new_min = js_num 109.89, msg_new_max = js_num 112.11\<rparr>
                ''BTCUSDT_max_price_exceeded''])
   \<and> \<not> js_gt (Fin 95) (Fin 110) \<and> js_lt (Fin 95) (Fin 100)
   \<and> updateCryptoData ''BTCUSDT''
        \<lparr>symbol = ''BTCUSDT'', price = Fin 95, priceChange = Fin (- 5),
         priceChangePercent = Fin (- 5), volume = Fin 0, high24h = Fin 0, low24h = Fin 0,
         lastUpdate = Undefined\<rparr>
        (setThresholds ''BTCUSDT'' (Fin 100) (Fin 110) new_price_monitor)
      = Inr (setThresholds ''BTCUSDT'' (js_num 94.05) (js_num 95.95) new_price_monitor
               \<lparr>cryptoData := [''BTCUSDT'' \<mapsto>
                  \<lparr>symbol = ''BTCUSDT'', price = Fin 95, priceChange = Fin (- 5),
                   priceChangePercent = Fin (- 5), volume = Fin 0, high24h = Fin 0,
                   low24h = Fin 0, lastUpdate = Undefined\<rparr>]\<rparr>,
             [Webhook_post
                \<lparr>msg_type = Exceed_min, msg_symbol = ''BTCUSDT'', msg_price = Fin 95,
                 msg_threshold = Fin 100, msg_plus_sign = False, msg_percent = Fin (- 5),
                 msg_new_min = js_num 94.05, msg_new_max = js_num 95.95\<rparr>
                ''BTCUSDT_min_price_exceeded''])
   \<and> \<not> js_gt (Fin 110) (Fin 110) \<and> \<not> js_lt (Fin 110) (Fin 100)
   \<and> updateCryptoData ''BTCUSDT''
        \<lparr>symbol = ''BTCUSDT'', price = Fin 110, priceChange = Fin 0,
         priceChangePercent = Fin 0, volume = Fin 0, high24h = Fin 0, low24h = Fin 0,
         lastUpdate = Undefined\<rparr>
        (setThresholds ''BTCUSDT'' (Fin 100) (Fin 110) new_price_monitor)
      = Inr (setThresholds ''BTCUSDT'' (Fin 100) (Fin 110) new_price_monitor
               \<lparr>cryptoData := [''BTCUSDT'' \<mapsto>
                  \<lparr>symbol = ''BTCUSDT'', price = Fin 110, priceChange = Fin 0,
                   priceChangePercent = Fin 0, volume = Fin 0, high24h = Fin 0,
                   low24h = Fin 0, lastUpdate = Undefined\<rparr>]\<rparr>,
             [])"
proof -
  let ?pm = "setThresholds ''BTCUSDT'' (Fin 100) (Fin 110) new_price_monitor"
  have th: "priceThresholds ?pm ''BTCUSDT'' = Some \<lparr>min_th = Fin 100, max_th = Fin 110\<rparr>"
    by (simp add: setThresholds_def)
  show ?thesis
    using th
      crossing_classification_and_rebase[OF th, of "\<lparr>symbol = ''BTCUSDT'', price = Fin 111, priceChange = Fin 3,
              priceChangePercent = Fin 2.5, volume = Fin 0, high24h = Fin 0, low24h = Fin 0,
              lastUpdate = Undefined\<rparr>"]
      crossing_classification_and_rebase[OF th, of "\<lparr>symbol = ''BTCUSDT'', price = Fin 95, priceChange = Fin (- 5),
              priceChangePercent = Fin (- 5), volume = Fin 0, high24h = Fin 0, low24h = Fin 0,
              lastUpdate = Undefined\<rparr>"]
      crossing_classification_and_rebase[OF th, of "\<lparr>symbol = ''BTCUSDT'', price = Fin 110, priceChange = Fin 0,
              priceChangePercent = Fin 0, volume = Fin 0, high24h = Fin 0, low24h = Fin 0,
              lastUpdate = Undefined\<rparr>"]
    by (simp add: Let_def alertKey_of_def setThresholds_def new_price_monitor_def
          new_notification_service_def alert_is_duplicate_def band_ok_def op_defs num_defs
          split del: if_split)
qed

section \<open>The band invariant\<close>

lemma js_num_not_NaN: "\<not> isNaN (js_num x)"
  by (simp add: js_num_def js_round_not_NaN)

lemma bands_ok_initial: "bands_ok new_price_monitor"
proof -
  have "band_ok th" if "map_of cfg_thresholds k = Some th" for k th
  proof -
    from that have "(k, th) \<in> set cfg_thresholds" by (rule map_of_SomeD)
    then show ?thesis
      by (auto simp add: cfg_thresholds_def band_ok_def js_le_refl js_num_not_NaN)
  qed
  then show ?thesis
    by (auto simp add: bands_ok_def new_price_monitor_def ran_def)
qed

lemma bands_ok_update:
  assumes "bands_ok pm" and "band_ok nb"
  shows "bands_ok (pm\<lparr>priceThresholds := (priceThresholds pm)(smb \<mapsto> nb)\<rparr>)"
  using assms by (auto simp add: bands_ok_def ran_def split: if_splits)

text \<open>
  Rounding is monotone, so the product with the smaller factor is not above the
  product with the larger one.
\<close>

lemma rebased_band_ok:
  assumes "js_le (Fin 0) p"
  shows "band_ok \<lparr>min_th = js_mul p (js_sub (Fin 1) priceChangeThreshold),
                  max_th = js_mul p (js_add (Fin 1) priceChangeThreshold)\<rparr>"
proof (cases p)
  case (Fin x)
  with assms have x: "0 \<le> x" by (simp add: js_le_def)
  have "x * (4458563631096791 / 2 ^ 52) \<le> x * (4548635623644201 / 2 ^ 52)"
    using x by (intro mult_left_mono) simp_all
  moreover have "0 \<le> x * (4458563631096791 / 2 ^ 52)" using x by simp
  ultimately have "js_le (js_round False (x * (4458563631096791 / 2 ^ 52)))
                         (js_round False (x * (4548635623644201 / 2 ^ 52)))"
    by (intro js_round_mono)
  moreover have "js_mul (Fin x) (Fin (4458563631096791 / 2 ^ 52))
                   = js_round False (x * (4458563631096791 / 2 ^ 52))"
    "js_mul (Fin x) (Fin (4548635623644201 / 2 ^ 52))
                   = js_round False (x * (4548635623644201 / 2 ^ 52))"
    using x by (simp_all add: js_mul_def abs_of_nonneg)
  ultimately show ?thesis
    unfolding rebase_factors Fin band_ok_def by simp
next
  case NegZero
  have "js_round True 0 = NegZero"
    by (simp add: js_round_def round_mag_zero signed_zero_def pow2_def)
  then show ?thesis
    unfolding rebase_factors NegZero band_ok_def
    by (simp add: js_mul_def js_le_def)
next
  case PInf
  show ?thesis
    unfolding rebase_factors PInf band_ok_def
    by (simp add: js_mul_def js_le_def signed_inf_def)
next
  case NInf
  with assms show ?thesis by (simp add: js_le_def)
next
  case NaN
  with assms show ?thesis by (simp add: js_le_def)
qed

lemma bands_ok_cryptoData:
  "bands_ok (pm\<lparr>cryptoData := c\<rparr>) = bands_ok pm"
  by (simp add: bands_ok_def)

text \<open>
  C8, as stated, fails: \<^verbatim>\<open>setThresholds\<close> stores the two numbers it is given, also when
  the first is the larger.
\<close>

theorem setThresholds_counterexample:
  "getThresholds ''BTCUSDT'' (setThresholds ''BTCUSDT'' (Fin 10) (Fin 5) new_price_monitor)
     = Some \<lparr>min_th = Fin 10, max_th = Fin 5\<rparr>
   \<and> \<not> band_ok \<lparr>min_th = Fin 10, max_th = Fin 5\<rparr>
   \<and> \<not> bands_ok (setThresholds ''BTCUSDT'' (Fin 10) (Fin 5) new_price_monitor)"
proof -
  have "\<lparr>min_th = Fin 10, max_th = Fin 5\<rparr>
          \<in> ran (priceThresholds (setThresholds ''BTCUSDT'' (Fin 10) (Fin 5) new_price_monitor))"
    by (rule ranI[where a = "''BTCUSDT''"]) (simp add: setThresholds_def)
  moreover have "\<not> band_ok \<lparr>min_th = Fin 10, max_th = Fin 5\<rparr>"
    by (simp add: band_ok_def js_le_def)
  ultimately show ?thesis
    unfolding bands_ok_def by (auto simp add: getThresholds_def setThresholds_def)
qed

text \<open>
  C8 (amended). The bands of the configuration satisfy \<^verbatim>\<open>min <= max\<close>. An update with
  a price that is not negative returns normally and keeps the invariant, whether it
  rebases or not; \<^verbatim>\<open>setThresholds\<close> keeps it when called with \<^verbatim>\<open>min <= max\<close>; the
  settling of an alert does not touch the bands.
\<close>

theorem band_invariant_preserved:
  "bands_ok new_price_monitor
   \<and> (bands_ok pm \<and> js_le (Fin 0) (price d) \<longrightarrow>
        (\<exists>pm' effs. updateCryptoData smb d pm = Inr (pm', effs) \<and> bands_ok pm'))
   \<and> (bands_ok pm \<and> js_le mn mx \<longrightarrow> bands_ok (setThresholds smb mn mx pm))
   \<and> bands_ok (alert_settled key outcome now pm) = bands_ok pm"
proof -
  have upd: "\<exists>pm' effs. updateCryptoData smb d pm = Inr (pm', effs) \<and> bands_ok pm'"
    if ok: "bands_ok pm" and nonneg: "js_le (Fin 0) (price d)"
  proof (cases "priceThresholds pm smb")
    case None
    then show ?thesis using ok
      by (simp add: updateCryptoData_def checkPriceThresholds_def Let_def bands_ok_cryptoData)
  next
    case (Some th)
    have "bands_ok (pm\<lparr>cryptoData := (cryptoData pm)(smb \<mapsto> d),
                       priceThresholds := (priceThresholds pm)(smb \<mapsto>
                         \<lparr>min_th = js_mul (price d) (js_sub (Fin 1) priceChangeThreshold),
                          max_th = js_mul (price d) (js_add (Fin 1) priceChangeThreshold)\<rparr>)\<rparr>)"
      using bands_ok_update[OF ok rebased_band_ok[OF nonneg], of smb]
      by (simp add: bands_ok_def)
    then show ?thesis using ok
      by (simp add: updateCryptoData_with_band[OF Some] Let_def bands_ok_cryptoData)
  qed
  have setT: "bands_ok (setThresholds smb mn mx pm)" if "bands_ok pm" and "js_le mn mx"
    unfolding setThresholds_def using that
    by (intro bands_ok_update) (simp_all add: band_ok_def)
  have settle: "bands_ok (alert_settled key outcome now pm) = bands_ok pm"
    by (simp add: alert_settled_def bands_ok_def)
  from bands_ok_initial upd setT settle show ?thesis by blast
qed

theorem band_invariant_preserved_witness:
  "bands_ok new_price_monitor \<and> js_le (Fin 0) (Fin 111)
   \<and> (\<exists>pm' effs. updateCryptoData ''BTCUSDT''
             \<lparr>symbol = ''BTCUSDT'', price = Fin 111, priceChange = Fin 3,
              priceChangePercent = Fin 2.5, volume = Fin 0, high24h = Fin 0, low24h = Fin 0,
              lastUpdate = Undefined\<rparr> new_price_monitor = Inr (pm', effs) \<and> bands_ok pm')
   \<and> js_le (Fin 100) (Fin 110)
   \<and> bands_ok (setThresholds ''BTCUSDT'' (Fin 100) (Fin 110) new_price_monitor)"
  using band_invariant_preserved[of new_price_monitor "\<lparr>symbol = ''BTCUSDT'', price = Fin 111, priceChange = Fin 3,
              priceChangePercent = Fin 2.5, volume = Fin 0, high24h = Fin 0, low24h = Fin 0,
              lastUpdate = Undefined\<rparr>" "''BTCUSDT''" "Fin 100" "Fin 110"]
  by (simp add: js_le_def)

section \<open>The percentage in an alert\<close>

lemma calc_numbers:
  "calculatePriceChangePercent (Number c) (Number p)
     = (if isNaN c \<or> isNaN p \<or> is_zero p then Fin 0
        else js_mul (js_div (js_sub c p) p) (Fin 100))"
  by simp

lemma calc_absent:
  "calculatePriceChangePercent c Undefined = Fin 0"
  by (cases c) simp_all

text \<open>A division by a zero gives an infinity or NaN, and so does its product with 100.\<close>

lemma div_by_zero: "is_zero z \<Longrightarrow> \<not> is_finite (js_div x z)"
  by (cases x; cases z) (simp_all add: js_div_def signed_inf_def)

lemma times_hundred: "\<not> is_finite y \<Longrightarrow> \<not> is_finite (js_mul y (Fin 100))"
  by (cases y) (simp_all add: js_mul_def signed_inf_def)

text \<open>
  C7, as stated, fails: a tick at 108000 is stored, then a tick with \<^verbatim>\<open>last\<close> 110000 and
  \<^verbatim>\<open>open24h\<close> 100000 crosses the upper threshold. The alert shows 10 percent, the change
  since the 24 h open; the change since the previous tick is 1.8518518518518516 percent.
\<close>

theorem alert_percent_counterexample:
  "deliver_events
     (on_message ecma (Some (Obj [(''arg'', Obj [(''channel'', Str ''tickers'')]),
        (''data'', Arr [Obj [(''instId'', Str ''BTC-USDT''), (''last'', Str ''108000''),
                             (''open24h'', Str ''100000'')],
                        Obj [(''instId'', Str ''BTC-USDT''), (''last'', Str ''110000''),
                             (''open24h'', Str ''100000'')]])])))
     new_price_monitor
     = Inr (setThresholds ''BTCUSDT'' (Fin 108900) (Fin 111100) new_price_monitor
              \<lparr>cryptoData := [''BTCUSDT'' \<mapsto>
                 \<lparr>symbol = ''BTCUSDT'', price = Fin 110000, priceChange = Fin 10000,
                  priceChangePercent = Fin 10, volume = Fin 0, high24h = Fin 0, low24h = Fin 0,
                  lastUpdate = Undefined\<rparr>]\<rparr>,
            [Webhook_post
               \<lparr>msg_type = Exceed_max, msg_symbol = ''BTCUSDT'', msg_price = Fin 110000,
                msg_threshold = Fin 108000, msg_plus_sign = True, msg_percent = Fin 10,
                msg_new_min = Fin 108900, msg_new_max = Fin 111100\<rparr>
               ''BTCUSDT_max_price_exceeded''])
   \<and> calculatePriceChangePercent (Number (Fin 110000)) (Number (Fin 108000))
       = js_num 1.8518518518518516"
proof -
  have p1: "parsePriceData ecma (Obj [(''instId'', Str ''BTC-USDT''), (''last'', Str ''108000''),
                                 (''open24h'', Str ''100000'')])
     = Some \<lparr>symbol = ''BTCUSDT'', price = Fin 108000, priceChange = Fin 8000,
             priceChangePercent = Fin 8, volume = Fin 0, high24h = Fin 0, low24h = Fin 0,
             lastUpdate = Undefined\<rparr>"
    by (subst parsePriceData_Obj_Str[where s = "''BTC-USDT''"])
       (simp_all add: ecma_fields parseFloat_examples date_examples
          convertOKXSymbolBack_def op_defs num_defs Let_def split del: if_split)
  have p2: "parsePriceData ecma (Obj [(''instId'', Str ''BTC-USDT''), (''last'', Str ''110000''),
                                 (''open24h'', Str ''100000'')])
     = Some \<lparr>symbol = ''BTCUSDT'', price = Fin 110000, priceChange = Fin 10000,
             priceChangePercent = Fin 10, volume = Fin 0, high24h = Fin 0, low24h = Fin 0,
             lastUpdate = Undefined\<rparr>"
    by (subst parsePriceData_Obj_Str[where s = "''BTC-USDT''"])
       (simp_all add: ecma_fields parseFloat_examples date_examples
          convertOKXSymbolBack_def op_defs num_defs Let_def split del: if_split)
  have c: "calculatePriceChangePercent (Number (Fin 110000)) (Number (Fin 108000))
       = js_num 1.8518518518518516"
    by (simp add: op_defs num_defs Let_def split del: if_split)
  have d: "deliver_events
     (on_message ecma (Some (Obj [(''arg'', Obj [(''channel'', Str ''tickers'')]),
        (''data'', Arr [Obj [(''instId'', Str ''BTC-USDT''), (''last'', Str ''108000''),
                             (''open24h'', Str ''100000'')],
                        Obj [(''instId'', Str ''BTC-USDT''), (''last'', Str ''110000''),
                             (''open24h'', Str ''100000'')]])])))
     new_price_monitor
     = Inr (setThresholds ''BTCUSDT'' (Fin 108900) (Fin 111100) new_price_monitor
              \<lparr>cryptoData := [''BTCUSDT'' \<mapsto>
                 \<lparr>symbol = ''BTCUSDT'', price = Fin 110000, priceChange = Fin 10000,
                  priceChangePercent = Fin 10, volume = Fin 0, high24h = Fin 0, low24h = Fin 0,
                  lastUpdate = Undefined\<rparr>]\<rparr>,
            [Webhook_post
               \<lparr>msg_type = Exceed_max, msg_symbol = ''BTCUSDT'', msg_price = Fin 110000,
                msg_threshold = Fin 108000, msg_plus_sign = True, msg_percent = Fin 10,
                msg_new_min = Fin 108900, msg_new_max = Fin 111100\<rparr>
               ''BTCUSDT_max_price_exceeded''])"
    unfolding on_message_tickers
    by (simp add: p1 p2 mon_defs setThresholds_def new_price_monitor_def
          new_notification_service_def cfg_thresholds_def bind_err_Inr priceChangeThreshold_def
          op_defs num_defs Let_def split del: if_split)
  from d c show ?thesis by (rule conjI)
qed

text \<open>
  C7 (amended). The percentage in an alert is the \<^verbatim>\<open>priceChangePercent\<close> of the tick,
  whatever the previous tick was, and the parser computes it as
  \<^verbatim>\<open>(last - open24h) / open24h * 100\<close> with no test for a zero \<^verbatim>\<open>open24h\<close>: that gives
  an infinity or NaN, not 0, and nothing is thrown. \<^verbatim>\<open>calculatePriceChangePercent\<close>
  computes \<^verbatim>\<open>(current - previous) / previous * 100\<close> and returns 0 for a previous
  price that is zero or absent; the alert does not use it.
\<close>

theorem alert_percent_is_24h_change:
  "(priceThresholds pm smb = Some th
      \<and> updateCryptoData smb d pm = Inr (pm', [Webhook_post m key])
    \<longrightarrow> msg_percent m = priceChangePercent d
        \<and> msg_plus_sign m = js_ge (priceChangePercent d) (Fin 0))
   \<and> (parsePriceData rt item = Some t \<longrightarrow>
        (\<exists>lst opn. rt_parseFloat rt (get_prop_opt item ''last'') = Inr lst
           \<and> rt_parseFloat rt (get_prop_opt item ''open24h'') = Inr opn
           \<and> price t = lst
           \<and> priceChangePercent t = js_mul (js_div (js_sub lst opn) opn) (Fin 100)
           \<and> (is_zero opn \<longrightarrow> \<not> is_finite (priceChangePercent t))))
   \<and> calculatePriceChangePercent (Number c) (Number p)
        = (if isNaN c \<or> isNaN p \<or> is_zero p then Fin 0
           else js_mul (js_div (js_sub c p) p) (Fin 100))
   \<and> calculatePriceChangePercent v Undefined = Fin 0"
proof -
  have a: "msg_percent m = priceChangePercent d
        \<and> msg_plus_sign m = js_ge (priceChangePercent d) (Fin 0)"
    if "priceThresholds pm smb = Some th"
      and "updateCryptoData smb d pm = Inr (pm', [Webhook_post m key])"
    using that(2) unfolding updateCryptoData_with_band[OF that(1)]
    by (auto simp add: Let_def split: if_splits)
  have b: "\<exists>lst opn. rt_parseFloat rt (get_prop_opt item ''last'') = Inr lst
           \<and> rt_parseFloat rt (get_prop_opt item ''open24h'') = Inr opn
           \<and> price t = lst
           \<and> priceChangePercent t = js_mul (js_div (js_sub lst opn) opn) (Fin 100)
           \<and> (is_zero opn \<longrightarrow> \<not> is_finite (priceChangePercent t))"
    if "parsePriceData rt item = Some t"
  proof -
    from parsePriceData_SomeD[OF that] obtain s lst opn vol high low date where
      l: "rt_parseFloat rt (get_prop_opt item ''last'') = Inr lst"
      and o: "rt_parseFloat rt (get_prop_opt item ''open24h'') = Inr opn"
      and t: "t = \<lparr>symbol = convertOKXSymbolBack s, price = lst,
                   priceChange = js_sub lst opn,
                   priceChangePercent = js_mul (js_div (js_sub lst opn) opn) (Fin 100),
                   volume = or_zero vol, high24h = or_zero high, low24h = or_zero low,
                   lastUpdate = date\<rparr>"
      by blast
    have "\<not> is_finite (js_mul (js_div (js_sub lst opn) opn) (Fin 100))" if "is_zero opn"
      using that by (intro times_hundred div_by_zero)
    with l o t show ?thesis by simp
  qed
  from a b calc_numbers calc_absent show ?thesis by blast
qed

theorem alert_percent_is_24h_change_witness:
  "priceThresholds new_price_monitor ''BTCUSDT'' = Some \<lparr>min_th = Fin 108000, max_th = Fin 108000\<rparr>
   \<and> updateCryptoData ''BTCUSDT''
        \<lparr>symbol = ''BTCUSDT'', price = Fin 110000, priceChange = Fin 10000,
         priceChangePercent = Fin 10, volume = Fin 0, high24h = Fin 0, low24h = Fin 0,
         lastUpdate = Undefined\<rparr> new_price_monitor
      = Inr (setThresholds ''BTCUSDT'' (Fin 108900) (Fin 111100) new_price_monitor
               \<lparr>cryptoData := [''BTCUSDT'' \<mapsto>
                  \<lparr>symbol = ''BTCUSDT'', price = Fin 110000, priceChange = Fin 10000,
                   priceChangePercent = Fin 10, volume = Fin 0, high24h = Fin 0, low24h = Fin 0,
                   lastUpdate = Undefined\<rparr>]\<rparr>,
             [Webhook_post
                \<lparr>msg_type = Exceed_max, msg_symbol = ''BTCUSDT'', msg_price = Fin 110000,
                 msg_threshold = Fin 108000, msg_plus_sign = True, msg_percent = Fin 10,
                 msg_new_min = Fin 108900, msg_new_max = Fin 111100\<rparr>
                ''BTCUSDT_max_price_exceeded''])
   \<and> parsePriceData ecma (Obj [(''instId'', Str ''BTC-USDT''), (''last'', Str ''5''),
                               (''open24h'', Str ''-0'')])
      = Some \<lparr>symbol = ''BTCUSDT'', price = Fin 5, priceChange = Fin 5,
              priceChangePercent = NInf, volume = Fin 0, high24h = Fin 0, low24h = Fin 0,
              lastUpdate = Undefined\<rparr>
   \<and> rt_parseFloat ecma (Str ''-0'') = Inr NegZero \<and> is_zero NegZero \<and> \<not> is_finite NInf
   \<and> calculatePriceChangePercent (Number (Fin 5)) (Number NegZero) = Fin 0"
proof -
  let ?d = "\<lparr>symbol = ''BTCUSDT'', price = Fin 110000, priceChange = Fin 10000,
         priceChangePercent = Fin 10, volume = Fin 0, high24h = Fin 0, low24h = Fin 0,
         lastUpdate = Undefined\<rparr>"
  let ?item = "Obj [(''instId'', Str ''BTC-USDT''), (''last'', Str ''5''), (''open24h'', Str ''-0'')]"
  let ?t = "\<lparr>symbol = ''BTCUSDT'', price = Fin 5, priceChange = Fin 5,
              priceChangePercent = NInf, volume = Fin 0, high24h = Fin 0, low24h = Fin 0,
              lastUpdate = Undefined\<rparr>"
  have th: "priceThresholds new_price_monitor ''BTCUSDT''
              = Some \<lparr>min_th = Fin 108000, max_th = Fin 108000\<rparr>"
    by (simp add: new_price_monitor_def cfg_thresholds_def)
  have u: "updateCryptoData ''BTCUSDT'' ?d new_price_monitor
      = Inr (setThresholds ''BTCUSDT'' (Fin 108900) (Fin 111100) new_price_monitor
               \<lparr>cryptoData := [''BTCUSDT'' \<mapsto> ?d]\<rparr>,
             [Webhook_post
                \<lparr>msg_type = Exceed_max, msg_symbol = ''BTCUSDT'', msg_price = Fin 110000,
                 msg_threshold = Fin 108000, msg_plus_sign = True, msg_percent = Fin 10,
                 msg_new_min = Fin 108900, msg_new_max = Fin 111100\<rparr>
                ''BTCUSDT_max_price_exceeded''])"
    by (simp add: mon_defs setThresholds_def new_price_monitor_def new_notification_service_def
          cfg_thresholds_def bind_err_Inr priceChangeThreshold_def
          op_defs num_defs Let_def split del: if_split)
  have p: "parsePriceData ecma ?item = Some ?t"
    by (subst parsePriceData_Obj_Str[where s = "''BTC-USDT''"])
       (simp_all add: ecma_fields parseFloat_examples date_examples
          convertOKXSymbolBack_def op_defs num_defs Let_def split del: if_split)
  show ?thesis
    using th u p
      alert_percent_is_24h_change
        [of new_price_monitor "''BTCUSDT''" "\<lparr>min_th = Fin 108000, max_th = Fin 108000\<rparr>" ?d
            "setThresholds ''BTCUSDT'' (Fin 108900) (Fin 111100) new_price_monitor
               \<lparr>cryptoData := [''BTCUSDT'' \<mapsto> ?d]\<rparr>"
            "\<lparr>msg_type = Exceed_max, msg_symbol = ''BTCUSDT'', msg_price = Fin 110000,
                 msg_threshold = Fin 108000, msg_plus_sign = True, msg_percent = Fin 10,
                 msg_new_min = Fin 108900, msg_new_max = Fin 111100\<rparr>"
            "''BTCUSDT_max_price_exceeded''" ecma ?item ?t "Fin 5" NegZero "Number (Fin 5)"]
    by (simp add: ecma_fields parseFloat_examples)
qed

section \<open>Alert deduplication (NotificationService)\<close>

lemma fold_expire:
  "fold (\<lambda>(due, k) m. if due \<le> now then m(k := None) else m) ts m key
     = (if \<exists>due \<le> now. (due, key) \<in> set ts then None else m key)"
proof (induction ts arbitrary: m)
  case Nil
  then show ?case by simp
next
  case (Cons t ts)
  obtain due k where t: "t = (due, k)" by (cases t)
  show ?case unfolding t by (auto simp add: Cons.IH)
qed

lemma sentAlerts_fire_timers:
  "sentAlerts (fire_timers now ns) key
     = (if \<exists>due \<le> now. (due, key) \<in> set (cooldownTimers ns) then None else sentAlerts ns key)"
  by (simp add: fire_timers_def fold_expire)

lemma cooldownTimers_fire_timers:
  "cooldownTimers (fire_timers now ns) = filter (\<lambda>(due, k). now < due) (cooldownTimers ns)"
  by (simp add: fire_timers_def)

lemma sentAlerts_cleanupTask:
  "sentAlerts (cleanupTask now ns) key
     = (case sentAlerts ns key of
          None \<Rightarrow> None
        | Some timestamp \<Rightarrow> if now - timestamp > maxAlertAge then None else Some timestamp)"
  by (simp add: cleanupTask_def)

lemma cooldownTimers_cleanupTask:
  "cooldownTimers (cleanupTask now ns) = cooldownTimers ns"
  by (simp add: cleanupTask_def)

text \<open>The answer of the webhook, written out.\<close>

lemma settle_state:
  "snd (sendWechatAlert_settle alertKey outcome now ns)
     = (case alertKey of
          None \<Rightarrow> ns
        | Some k \<Rightarrow>
            if outcome = Resolved True \<and> k \<noteq> [] then
              ns\<lparr>sentAlerts := (sentAlerts ns)(k \<mapsto> now),
                 cooldownTimers := cooldownTimers ns @ [(now + cooldownPeriod, k)]\<rparr>
            else ns)"
  by (cases outcome) (auto simp add: sendWechatAlert_settle_def split: option.splits)

lemma settle_returns_verdict:
  "fst (sendWechatAlert_settle alertKey outcome now ns) = (outcome = Resolved True)"
  by (cases outcome) (auto simp add: sendWechatAlert_settle_def split: option.splits)

lemma dispatch_result:
  "fst (dispatch_at t (Some k) out ns)
     = (out = Resolved True \<and> (k = [] \<or> sentAlerts (fire_timers t ns) k = None))"
  by (auto simp add: dispatch_at_def sendWechatAlert_def alert_is_duplicate_def
        settle_returns_verdict)

subsection \<open>Inside the window\<close>

text \<open>
  From the answer at \<open>t1\<close> until \<open>t1\<close> plus the cooldown period the key \<open>k\<close> has
  a record, made at \<open>t1\<close> or later, and none of its callbacks is due before the end
  of the window; answers under any key, also under \<open>k\<close>, and sweeps keep this.
\<close>

lemma in_window_fire:
  assumes "in_window k t1 ns" and "t < t1 + cooldownPeriod"
  shows "in_window k t1 (fire_timers t ns)"
proof -
  have "\<not> (\<exists>d \<le> t. (d, k) \<in> set (cooldownTimers ns))"
    using assms by (auto simp add: in_window_def)
  then have "sentAlerts (fire_timers t ns) k = sentAlerts ns k"
    by (simp only: sentAlerts_fire_timers if_False)
  then show ?thesis
    using assms(1) by (auto simp add: in_window_def cooldownTimers_fire_timers)
qed

lemma in_window_step:
  assumes w: "in_window k t1 ns" and lo: "t1 \<le> t" and hi: "t < t1 + cooldownPeriod"
  shows "in_window k t1 (ns_step t ev ns)"
proof -
  let ?f = "fire_timers t ns"
  have f: "in_window k t1 ?f" using w hi by (rule in_window_fire)
  show ?thesis
  proof (cases ev)
    case (Answered key out)
    show ?thesis
      unfolding Answered ns_step.simps settle_state
      using f lo by (auto simp add: in_window_def split: option.splits)
  next
    case Sweep
    from f obtain ts where ts: "sentAlerts ?f k = Some ts" "t1 \<le> ts"
      by (auto simp add: in_window_def)
    have "\<not> t - ts > maxAlertAge"
      using ts(2) hi by (simp add: cooldownPeriod_def maxAlertAge_def)
    then show ?thesis
      unfolding Sweep ns_step.simps
      using f ts by (simp add: in_window_def sentAlerts_cleanupTask cooldownTimers_cleanupTask)
  qed
qed

lemma in_window_run:
  assumes "in_window k t1 ns"
    and "list_all (\<lambda>e. t1 \<le> fst e \<and> fst e < t1 + cooldownPeriod) mid"
  shows "in_window k t1 (ns_run mid ns)"
  using assms
proof (induction mid arbitrary: ns)
  case Nil
  then show ?case by simp
next
  case (Cons e mid)
  obtain t ev where e: "e = (t, ev)" by (cases e)
  from Cons.prems(2) have t: "t1 \<le> t" "t < t1 + cooldownPeriod"
    and rest: "list_all (\<lambda>e. t1 \<le> fst e \<and> fst e < t1 + cooldownPeriod) mid"
    by (simp_all add: e)
  from Cons.IH[OF in_window_step[OF Cons.prems(1) t, of ev] rest] show ?case by (simp add: e)
qed

lemma in_window_answered:
  assumes "k \<noteq> []" and "no_timer_for k (fire_timers t1 ns)"
  shows "in_window k t1 (ns_step t1 (Answered (Some k) (Resolved True)) ns)"
  using assms
  by (auto simp add: in_window_def settle_state no_timer_for_def list_all_iff)

lemma suppressed_in_window:
  assumes "k \<noteq> []" and "in_window k t1 ns" and "t2 < t1 + cooldownPeriod"
  shows "fst (dispatch_at t2 (Some k) out2 ns) = False"
proof -
  from in_window_fire[OF assms(2,3)] have "sentAlerts (fire_timers t2 ns) k \<noteq> None"
    by (auto simp add: in_window_def)
  then show ?thesis using assms(1) by (simp add: dispatch_result)
qed

subsection \<open>After the window\<close>

text \<open>
  Answers under other keys and sweeps leave the record made at \<open>t1\<close> in place with
  its callback, or gone.
\<close>

lemma other_keys_fire:
  assumes "(sentAlerts ns k = Some t1 \<and> (t1 + cooldownPeriod, k) \<in> set (cooldownTimers ns))
           \<or> sentAlerts ns k = None"
  shows "(sentAlerts (fire_timers t ns) k = Some t1
            \<and> (t1 + cooldownPeriod, k) \<in> set (cooldownTimers (fire_timers t ns)))
         \<or> sentAlerts (fire_timers t ns) k = None"
proof (cases "\<exists>d \<le> t. (d, k) \<in> set (cooldownTimers ns)")
  case True
  then show ?thesis by (simp add: sentAlerts_fire_timers)
next
  case False
  then have same: "sentAlerts (fire_timers t ns) k = sentAlerts ns k"
    by (simp only: sentAlerts_fire_timers if_False)
  show ?thesis
  proof (cases "sentAlerts ns k")
    case None
    then show ?thesis using same by simp
  next
    case (Some a)
    with assms have m: "(t1 + cooldownPeriod, k) \<in> set (cooldownTimers ns)" and a: "a = t1"
      by auto
    have "t < t1 + cooldownPeriod"
    proof (rule ccontr)
      assume "\<not> t < t1 + cooldownPeriod"
      then have "t1 + cooldownPeriod \<le> t" by simp
      with m False show False by blast
    qed
    then have "(t1 + cooldownPeriod, k) \<in> set (cooldownTimers (fire_timers t ns))"
      using m by (simp add: cooldownTimers_fire_timers)
    then show ?thesis using same Some a by simp
  qed
qed

lemma other_keys_step:
  assumes "(sentAlerts ns k = Some t1 \<and> (t1 + cooldownPeriod, k) \<in> set (cooldownTimers ns))
           \<or> sentAlerts ns k = None"
    and "\<not> is_answer_of k ev"
  shows "(sentAlerts (ns_step t ev ns) k = Some t1
            \<and> (t1 + cooldownPeriod, k) \<in> set (cooldownTimers (ns_step t ev ns)))
         \<or> sentAlerts (ns_step t ev ns) k = None"
proof (cases ev)
  case (Answered key out)
  with assms(2) have "key \<noteq> Some k" by simp
  then show ?thesis
    unfolding Answered ns_step.simps settle_state
    using other_keys_fire[OF assms(1), of t]
    by (auto split: option.splits)
next
  case Sweep
  show ?thesis
    unfolding Sweep ns_step.simps
    using other_keys_fire[OF assms(1), of t]
    by (auto simp add: sentAlerts_cleanupTask cooldownTimers_cleanupTask split: if_splits)
qed

lemma other_keys_all:
  assumes "(sentAlerts ns k = Some t1 \<and> (t1 + cooldownPeriod, k) \<in> set (cooldownTimers ns))
           \<or> sentAlerts ns k = None"
    and "list_all (\<lambda>e. \<not> is_answer_of k (snd e)) mid"
  shows "(sentAlerts (ns_run mid ns) k = Some t1
            \<and> (t1 + cooldownPeriod, k) \<in> set (cooldownTimers (ns_run mid ns)))
         \<or> sentAlerts (ns_run mid ns) k = None"
  using assms
proof (induction mid arbitrary: ns)
  case Nil
  then show ?case by simp
next
  case (Cons e mid)
  obtain t ev where e: "e = (t, ev)" by (cases e)
  from Cons.prems(2) have ev: "\<not> is_answer_of k ev"
    and rest: "list_all (\<lambda>e. \<not> is_answer_of k (snd e)) mid"
    by (simp_all add: e)
  from Cons.IH[OF other_keys_step[OF Cons.prems(1) ev, of t] rest]
  show ?case by (simp add: e)
qed

lemma dispatches_after_expiry:
  assumes "k \<noteq> []"
    and "(sentAlerts ns k = Some t1 \<and> (t1 + cooldownPeriod, k) \<in> set (cooldownTimers ns))
           \<or> sentAlerts ns k = None"
    and "t1 + cooldownPeriod \<le> t2"
  shows "fst (dispatch_at t2 (Some k) (Resolved True) ns) = True"
proof -
  have "sentAlerts (fire_timers t2 ns) k = None"
    using assms(2,3) by (auto simp add: sentAlerts_fire_timers)
  then show ?thesis by (simp add: dispatch_result)
qed

text \<open>An answer under one key changes nothing that a call under another key looks at.\<close>

lemma other_key_unseen:
  assumes "k' \<noteq> k"
  shows "fst (dispatch_at t2 (Some k') out2 (ns_step t3 (Answered (Some k) out3) ns))
           = fst (dispatch_at t2 (Some k') out2 (fire_timers t3 ns))"
proof -
  let ?f = "fire_timers t3 ns"
  let ?a = "ns_step t3 (Answered (Some k) out3) ns"
  have rec: "sentAlerts ?a k' = sentAlerts ?f k'"
    using assms by (auto simp add: settle_state)
  have tm: "(d, k') \<in> set (cooldownTimers ?a) \<longleftrightarrow> (d, k') \<in> set (cooldownTimers ?f)" for d
    using assms by (auto simp add: settle_state)
  have "sentAlerts (fire_timers t2 ?a) k' = sentAlerts (fire_timers t2 ?f) k'"
    by (simp only: sentAlerts_fire_timers[of t2] rec tm)
  then show ?thesis
    by (simp only: dispatch_result)
qed

lemma alertKey_of_inject:
  "alertKey_of smb ty = alertKey_of smb' ty' \<longleftrightarrow> smb = smb' \<and> ty = ty'"
proof
  assume eq: "alertKey_of smb ty = alertKey_of smb' ty'"
  have len: "length (type_name x) = 3" for x by (cases x) simp_all
  from eq have "length (alertKey_of smb ty) = length (alertKey_of smb' ty')" by simp
  then have "length smb = length smb'" by (simp add: alertKey_of_def len)
  with eq have "smb = smb'" and "type_name ty @ ''_price_exceeded'' = type_name ty' @ ''_price_exceeded''"
    by (simp_all add: alertKey_of_def)
  moreover from this(2) have "ty = ty'" by (cases ty; cases ty') simp_all
  ultimately show "smb = smb' \<and> ty = ty'" by simp
qed simp

text \<open>A whole call that returns true is an answered delivery.\<close>

lemma whole_call_answered:
  assumes "fst (dispatch_at t1 (Some k) (Resolved True) ns)"
  shows "snd (dispatch_at t1 (Some k) (Resolved True) ns)
           = ns_step t1 (Answered (Some k) (Resolved True)) ns"
  using assms
  by (auto simp add: dispatch_at_def sendWechatAlert_def split: if_splits)


text \<open>
  C4, as stated, fails. First: the first attempt is made at time 0 and the webhook
  rejects it, so no record is made; the second attempt under the same key, 1000 ms
  later, is not suppressed and returns true. Second: two deliveries under one key are
  under way together and are answered at 1000 and 2000; the callback set at 1000 deletes
  the record at 61000, so an attempt at 61500, inside the window of the record made at
  2000, is sent.
\<close>

theorem failed_first_attempt_counterexample:
  "fst (dispatch_at 1000 (Some ''BTCUSDT_max_price_exceeded'') (Resolved True)
          (snd (dispatch_at 0 (Some ''BTCUSDT_max_price_exceeded'') (Resolved False)
                  new_notification_service))) = True
   \<and> fst (dispatch_at 61500 (Some ''BTCUSDT_max_price_exceeded'') (Resolved True)
            (ns_run [(1000, Answered (Some ''BTCUSDT_max_price_exceeded'') (Resolved True)),
                     (2000, Answered (Some ''BTCUSDT_max_price_exceeded'') (Resolved True))]
               new_notification_service)) = True"
  by (simp add: dispatch_at_def sendWechatAlert_def alert_is_duplicate_def
        sendWechatAlert_settle_def fire_timers_def new_notification_service_def cooldownPeriod_def)

text \<open>
  C4 (amended). Let a delivery under the key \<open>k\<close> be answered with success at time
  \<open>t1\<close> (a call that returns true is one), in any state of the service. If no
  cooldown callback for \<open>k\<close> is pending at \<open>t1\<close>, every attempt under \<open>k\<close>
  before \<open>t1\<close> plus the cooldown period returns false, whatever answers (also under
  \<open>k\<close>) and sweeps happen in that window. An attempt at or after that time, with
  sweeps and answers under other keys in between, is sent again. An answer under one
  key never changes the result of a call under another key, and the alert keys of two
  crossings are equal only for the same symbol and the same direction.
\<close>

theorem dedup_per_key_cooldown:
  assumes "k \<noteq> []"
  shows "(no_timer_for k (fire_timers t1 ns)
            \<and> list_all (\<lambda>e. t1 \<le> fst e \<and> fst e < t1 + cooldownPeriod) mid
            \<and> t2 < t1 + cooldownPeriod
            \<longrightarrow> fst (dispatch_at t2 (Some k) out2
                       (ns_run mid (ns_step t1 (Answered (Some k) (Resolved True)) ns))) = False)
       \<and> (list_all (\<lambda>e. \<not> is_answer_of k (snd e)) mid \<and> t1 + cooldownPeriod \<le> t2
            \<longrightarrow> fst (dispatch_at t2 (Some k) (Resolved True)
                       (ns_run mid (ns_step t1 (Answered (Some k) (Resolved True)) ns))) = True)
       \<and> (fst (dispatch_at t1 (Some k) (Resolved True) ns)
            \<longrightarrow> snd (dispatch_at t1 (Some k) (Resolved True) ns)
                  = ns_step t1 (Answered (Some k) (Resolved True)) ns)
       \<and> (k' \<noteq> k
            \<longrightarrow> fst (dispatch_at t2 (Some k') out2 (ns_step t3 (Answered (Some k) out3) ns))
                  = fst (dispatch_at t2 (Some k') out2 (fire_timers t3 ns)))
       \<and> (alertKey_of smb ty = alertKey_of smb' ty' \<longleftrightarrow> smb = smb' \<and> ty = ty')"
proof -
  let ?ns1 = "ns_step t1 (Answered (Some k) (Resolved True)) ns"
  have one: "fst (dispatch_at t2 (Some k) out2 (ns_run mid ?ns1)) = False"
    if "no_timer_for k (fire_timers t1 ns)"
      and "list_all (\<lambda>e. t1 \<le> fst e \<and> fst e < t1 + cooldownPeriod) mid"
      and "t2 < t1 + cooldownPeriod"
    using suppressed_in_window[OF assms in_window_run[OF in_window_answered[OF assms that(1)] that(2)]
            that(3)] .
  have start: "sentAlerts ?ns1 k = Some t1 \<and> (t1 + cooldownPeriod, k) \<in> set (cooldownTimers ?ns1)"
    using assms by (simp add: settle_state)
  have two: "fst (dispatch_at t2 (Some k) (Resolved True) (ns_run mid ?ns1)) = True"
    if "list_all (\<lambda>e. \<not> is_answer_of k (snd e)) mid" and "t1 + cooldownPeriod \<le> t2"
    using other_keys_all[OF _ that(1), of ?ns1 t1] start
      dispatches_after_expiry[OF assms _ that(2)]
    by blast
  from one two whole_call_answered other_key_unseen alertKey_of_inject show ?thesis by blast
qed

theorem dedup_per_key_cooldown_witness:
  "''BTCUSDT_max_price_exceeded'' \<noteq> []
   \<and> no_timer_for ''BTCUSDT_max_price_exceeded'' (fire_timers 0 new_notification_service)
   \<and> fst (dispatch_at 0 (Some ''BTCUSDT_max_price_exceeded'') (Resolved True)
            new_notification_service)
   \<and> snd (dispatch_at 0 (Some ''BTCUSDT_max_price_exceeded'') (Resolved True)
            new_notification_service)
       = \<lparr>sentAlerts = [''BTCUSDT_max_price_exceeded'' \<mapsto> 0],
          cooldownTimers = [(60000, ''BTCUSDT_max_price_exceeded'')]\<rparr>
   \<and> fst (dispatch_at 59999 (Some ''BTCUSDT_max_price_exceeded'') (Resolved True)
            (ns_run [(30000, Answered (Some ''ETHUSDT_min_price_exceeded'') (Resolved True)),
                     (40000, Answered (Some ''BTCUSDT_max_price_exceeded'') (Resolved True)),
                     (45000, Sweep)]
               \<lparr>sentAlerts = [''BTCUSDT_max_price_exceeded'' \<mapsto> 0],
                cooldownTimers = [(60000, ''BTCUSDT_max_price_exceeded'')]\<rparr>)) = False
   \<and> fst (dispatch_at 60000 (Some ''BTCUSDT_max_price_exceeded'') (Resolved True)
            (ns_run [(30000, Answered (Some ''ETHUSDT_min_price_exceeded'') (Resolved True)),
                     (45000, Sweep)]
               \<lparr>sentAlerts = [''BTCUSDT_max_price_exceeded'' \<mapsto> 0],
                cooldownTimers = [(60000, ''BTCUSDT_max_price_exceeded'')]\<rparr>)) = True
   \<and> ''ETHUSDT_min_price_exceeded'' \<noteq> ''BTCUSDT_max_price_exceeded''
   \<and> alertKey_of ''BTCUSDT'' Exceed_max \<noteq> alertKey_of ''BTCUSDT'' Exceed_min"
proof -
  let ?k = "''BTCUSDT_max_price_exceeded''"
  let ?ns1 = "\<lparr>sentAlerts = [?k \<mapsto> 0], cooldownTimers = [(60000, ?k)]\<rparr>"
  let ?mid1 = "[(30000::int, Answered (Some ''ETHUSDT_min_price_exceeded'') (Resolved True)),
                (40000, Answered (Some ?k) (Resolved True)), (45000, Sweep)]"
  let ?mid2 = "[(30000::int, Answered (Some ''ETHUSDT_min_price_exceeded'') (Resolved True)),
                (45000, Sweep)]"
  have k: "?k \<noteq> []" by simp
  have nt: "no_timer_for ?k (fire_timers 0 new_notification_service)"
    by (simp add: no_timer_for_def fire_timers_def new_notification_service_def)
  have st: "ns_step 0 (Answered (Some ?k) (Resolved True)) new_notification_service = ?ns1"
    by (simp add: settle_state fire_timers_def new_notification_service_def cooldownPeriod_def)
  have first: "fst (dispatch_at 0 (Some ?k) (Resolved True) new_notification_service)"
    by (simp add: dispatch_result sentAlerts_fire_timers new_notification_service_def)
  have m1: "list_all (\<lambda>e. 0 \<le> fst e \<and> fst e < 0 + cooldownPeriod) ?mid1"
    by (simp add: cooldownPeriod_def)
  have m2: "list_all (\<lambda>e. \<not> is_answer_of ?k (snd e)) ?mid2"
    by simp
  have w1: "(59999::int) < 0 + cooldownPeriod" by (simp add: cooldownPeriod_def)
  have w2: "0 + cooldownPeriod \<le> (60000::int)" by (simp add: cooldownPeriod_def)
  show ?thesis
    using k nt first m1 m2 w1 w2
      dedup_per_key_cooldown[OF k, of 0 new_notification_service ?mid1 59999 "Resolved True"
            "''ETHUSDT_min_price_exceeded''"
            0 "Resolved True" "''BTCUSDT''" Exceed_max "''BTCUSDT''" Exceed_min]
      dedup_per_key_cooldown[OF k, of 0 new_notification_service ?mid2 60000 "Resolved True"
            "''ETHUSDT_min_price_exceeded''"
            0 "Resolved True" "''BTCUSDT''" Exceed_max "''BTCUSDT''" Exceed_min]
    unfolding st
    by simp
qed


subsection \<open>Crossings and the answer of the webhook\<close>

lemma alert_settled_service:
  "notificationService (alert_settled key outcome now pm)
     = (if outcome = Resolved True \<and> key \<noteq> []
        then (notificationService pm)
               \<lparr>sentAlerts := (sentAlerts (notificationService pm))(key \<mapsto> now),
                cooldownTimers := cooldownTimers (notificationService pm)
                                   @ [(now + cooldownPeriod, key)]\<rparr>
        else notificationService pm)"
  by (simp add: alert_settled_def settle_state)

lemma handlePriceExceeded_effect:
  "\<exists>pm' m. handlePriceExceeded smb d ty threshold pm
     = Inr (pm', [if alert_is_duplicate (Some (alertKey_of smb ty)) (notificationService pm)
                  then Duplicate_skipped (alertKey_of smb ty)
                  else Webhook_post m (alertKey_of smb ty)])"
  by (simp add: handlePriceExceeded_result Let_def)

text \<open>
  C1, as stated, fails. First: the price 110000 crosses the upper threshold and the
  alert is sent to the webhook, which rejects it; no record is stored under the alert
  key, and the next upper crossing (120000, one second later) is sent to the webhook
  again. Second: the send is not awaited, so when the webhook has not answered the
  first alert yet, the crossing at 120000 is sent as well; both are accepted, at 1000
  and at 2000, and the callback set at 1000 deletes the record at 61000: the upper
  crossing at 61500 (130000), inside the window of the record made at 2000, is sent.
\<close>

theorem failed_delivery_counterexample:
  "updateCryptoData ''BTCUSDT''
     \<lparr>symbol = ''BTCUSDT'', price = Fin 110000, priceChange = Fin 10000,
      priceChangePercent = Fin 10, volume = Fin 0, high24h = Fin 0, low24h = Fin 0,
      lastUpdate = Undefined\<rparr> new_price_monitor
     = Inr (setThresholds ''BTCUSDT'' (Fin 108900) (Fin 111100) new_price_monitor
              \<lparr>cryptoData := [''BTCUSDT'' \<mapsto>
                 \<lparr>symbol = ''BTCUSDT'', price = Fin 110000, priceChange = Fin 10000,
                  priceChangePercent = Fin 10, volume = Fin 0, high24h = Fin 0, low24h = Fin 0,
                  lastUpdate = Undefined\<rparr>]\<rparr>,
            [Webhook_post
               \<lparr>msg_type = Exceed_max, msg_symbol = ''BTCUSDT'', msg_price = Fin 110000,
                msg_threshold = Fin 108000, msg_plus_sign = True, msg_percent = Fin 10,
                msg_new_min = Fin 108900, msg_new_max = Fin 111100\<rparr>
               ''BTCUSDT_max_price_exceeded''])
   \<and> sentAlerts (notificationService
        (alert_settled ''BTCUSDT_max_price_exceeded'' (Resolved False) 1000
           (setThresholds ''BTCUSDT'' (Fin 108900) (Fin 111100) new_price_monitor
              \<lparr>cryptoData := [''BTCUSDT'' \<mapsto>
                 \<lparr>symbol = ''BTCUSDT'', price = Fin 110000, priceChange = Fin 10000,
                  priceChangePercent = Fin 10, volume = Fin 0, high24h = Fin 0, low24h = Fin 0,
                  lastUpdate = Undefined\<rparr>]\<rparr>)))
        ''BTCUSDT_max_price_exceeded'' = None
   \<and> updateCryptoData ''BTCUSDT''
        \<lparr>symbol = ''BTCUSDT'', price = Fin 120000, priceChange = Fin 20000,
         priceChangePercent = Fin 20, volume = Fin 0, high24h = Fin 0, low24h = Fin 0,
         lastUpdate = Undefined\<rparr>
        (timers_run 2000
           (alert_settled ''BTCUSDT_max_price_exceeded'' (Resolved False) 1000
              (setThresholds ''BTCUSDT'' (Fin 108900) (Fin 111100) new_price_monitor
                 \<lparr>cryptoData := [''BTCUSDT'' \<mapsto>
                    \<lparr>symbol = ''BTCUSDT'', price = Fin 110000, priceChange = Fin 10000,
                     priceChangePercent = Fin 10, volume = Fin 0, high24h = Fin 0,
                     low24h = Fin 0, lastUpdate = Undefined\<rparr>]\<rparr>)))
     = Inr (setThresholds ''BTCUSDT'' (Fin 118800) (Fin 121200) new_price_monitor
              \<lparr>cryptoData := [''BTCUSDT'' \<mapsto>
                 \<lparr>symbol = ''BTCUSDT'', price = Fin 120000, priceChange = Fin 20000,
                  priceChangePercent = Fin 20, volume = Fin 0, high24h = Fin 0, low24h = Fin 0,
                  lastUpdate = Undefined\<rparr>]\<rparr>,
            [Webhook_post
               \<lparr>msg_type = Exceed_max, msg_symbol = ''BTCUSDT'', msg_price = Fin 120000,
                msg_threshold = Fin 111100, msg_plus_sign = True, msg_percent = Fin 20,
                msg_new_min = Fin 118800, msg_new_max = Fin 121200\<rparr>
               ''BTCUSDT_max_price_exceeded''])
   \<and> updateCryptoData ''BTCUSDT''
        \<lparr>symbol = ''BTCUSDT'', price = Fin 120000, priceChange = Fin 20000,
         priceChangePercent = Fin 20, volume = Fin 0, high24h = Fin 0, low24h = Fin 0,
         lastUpdate = Undefined\<rparr>
        (setThresholds ''BTCUSDT'' (Fin 108900) (Fin 111100) new_price_monitor
           \<lparr>cryptoData := [''BTCUSDT'' \<mapsto>
              \<lparr>symbol = ''BTCUSDT'', price = Fin 110000, priceChange = Fin 10000,
               priceChangePercent = Fin 10, volume = Fin 0, high24h = Fin 0,
               low24h = Fin 0, lastUpdate = Undefined\<rparr>]\<rparr>)
     = Inr (setThresholds ''BTCUSDT'' (Fin 118800) (Fin 121200) new_price_monitor
              \<lparr>cryptoData := [''BTCUSDT'' \<mapsto>
                 \<lparr>symbol = ''BTCUSDT'', price = Fin 120000, priceChange = Fin 20000,
                  priceChangePercent = Fin 20, volume = Fin 0, high24h = Fin 0, low24h = Fin 0,
                  lastUpdate = Undefined\<rparr>]\<rparr>,
            [Webhook_post
               \<lparr>msg_type = Exceed_max, msg_symbol = ''BTCUSDT'', msg_price = Fin 120000,
                msg_threshold = Fin 111100, msg_plus_sign = True, msg_percent = Fin 20,
                msg_new_min = Fin 118800, msg_new_max = Fin 121200\<rparr>
               ''BTCUSDT_max_price_exceeded''])
   \<and> updateCryptoData ''BTCUSDT''
        \<lparr>symbol = ''BTCUSDT'', price = Fin 130000, priceChange = Fin 30000,
         priceChangePercent = Fin 30, volume = Fin 0, high24h = Fin 0, low24h = Fin 0,
         lastUpdate = Undefined\<rparr>
        (timers_run 61500
           (alert_settled ''BTCUSDT_max_price_exceeded'' (Resolved True) 2000
              (alert_settled ''BTCUSDT_max_price_exceeded'' (Resolved True) 1000
                 (setThresholds ''BTCUSDT'' (Fin 118800) (Fin 121200) new_price_monitor
                    \<lparr>cryptoData := [''BTCUSDT'' \<mapsto>
                       \<lparr>symbol = ''BTCUSDT'', price = Fin 120000, priceChange = Fin 20000,
                        priceChangePercent = Fin 20, volume = Fin 0, high24h = Fin 0,
                        low24h = Fin 0, lastUpdate = Undefined\<rparr>]\<rparr>))))
     = Inr (setThresholds ''BTCUSDT'' (Fin 128700) (Fin 131300) new_price_monitor
              \<lparr>cryptoData := [''BTCUSDT'' \<mapsto>
                 \<lparr>symbol = ''BTCUSDT'', price = Fin 130000, priceChange = Fin 30000,
                  priceChangePercent = Fin 30, volume = Fin 0, high24h = Fin 0, low24h = Fin 0,
                  lastUpdate = Undefined\<rparr>],
               notificationService :=
                 \<lparr>sentAlerts = Map.empty,
                  cooldownTimers = [(62000, ''BTCUSDT_max_price_exceeded'')]\<rparr>\<rparr>,
            [Webhook_post
               \<lparr>msg_type = Exceed_max, msg_symbol = ''BTCUSDT'', msg_price = Fin 130000,
                msg_threshold = Fin 121200, msg_plus_sign = True, msg_percent = Fin 30,
                msg_new_min = Fin 128700, msg_new_max = Fin 131300\<rparr>
               ''BTCUSDT_max_price_exceeded''])"
  by (simp add: mon_defs setThresholds_def new_price_monitor_def new_notification_service_def
        cfg_thresholds_def bind_err_Inr timers_run_def fire_timers_def alert_settled_def
        sendWechatAlert_settle_def cooldownPeriod_def priceChangeThreshold_def
        op_defs num_defs Let_def split del: if_split)

text \<open>
  C1 (amended). \<^verbatim>\<open>sendWechatAlert\<close> returns the verdict of the webhook and stores the
  record of the alert key only when the delivery succeeded. When the webhook accepts
  an alert at time \<open>now\<close> and no cooldown callback for the key is pending then, a
  crossing with the same key before \<open>now\<close> plus the cooldown period is skipped as a
  duplicate, whatever answers of the webhook and sweeps happen in between. After a
  failed delivery the records are as before; when the key had no record, the next
  crossing with the same key is sent to the webhook again.
\<close>

theorem record_only_after_success:
  "fst (sendWechatAlert_settle (Some (alertKey_of smb ty)) outcome now (notificationService pm))
     = (outcome = Resolved True)
   \<and> (no_timer_for (alertKey_of smb ty) (fire_timers now (notificationService pm))
        \<and> list_all (\<lambda>e. now \<le> fst e \<and> fst e < now + cooldownPeriod) mid
        \<and> t2 < now + cooldownPeriod
        \<and> notificationService pm2
             = ns_run mid (notificationService
                 (alert_settled (alertKey_of smb ty) (Resolved True) now (timers_run now pm)))
        \<longrightarrow> (\<exists>pm'. handlePriceExceeded smb d ty threshold (timers_run t2 pm2)
                    = Inr (pm', [Duplicate_skipped (alertKey_of smb ty)])))
   \<and> (outcome \<noteq> Resolved True
        \<longrightarrow> notificationService (alert_settled (alertKey_of smb ty) outcome now pm)
              = notificationService pm)
   \<and> (outcome \<noteq> Resolved True
        \<and> \<not> alert_is_duplicate (Some (alertKey_of smb ty)) (notificationService pm)
        \<longrightarrow> (\<exists>pm' m. handlePriceExceeded smb d ty threshold
                        (timers_run t2 (alert_settled (alertKey_of smb ty) outcome now pm))
                      = Inr (pm', [Webhook_post m (alertKey_of smb ty)])))"
proof -
  let ?key = "alertKey_of smb ty"
  let ?ns = "notificationService pm"
  have key: "?key \<noteq> []" by (rule alertKey_nonempty)
  have suppressed: "\<exists>pm'. handlePriceExceeded smb d ty threshold (timers_run t2 pm2)
                    = Inr (pm', [Duplicate_skipped ?key])"
    if nt: "no_timer_for ?key (fire_timers now ?ns)"
      and mid: "list_all (\<lambda>e. now \<le> fst e \<and> fst e < now + cooldownPeriod) mid"
      and win: "t2 < now + cooldownPeriod"
      and pm2: "notificationService pm2
             = ns_run mid (notificationService
                 (alert_settled ?key (Resolved True) now (timers_run now pm)))"
  proof -
    have "notificationService (alert_settled ?key (Resolved True) now (timers_run now pm))
            = ns_step now (Answered (Some ?key) (Resolved True)) ?ns"
      by (simp add: alert_settled_def timers_run_def)
    then have "in_window ?key now (notificationService pm2)"
      using in_window_run[OF in_window_answered[OF key nt] mid] pm2 by simp
    from in_window_fire[OF this win]
    have "sentAlerts (fire_timers t2 (notificationService pm2)) ?key \<noteq> None"
      by (auto simp add: in_window_def)
    then have "alert_is_duplicate (Some ?key) (notificationService (timers_run t2 pm2))"
      using key by (simp add: alert_is_duplicate_def timers_run_def)
    then show ?thesis
      using handlePriceExceeded_effect[of smb d ty threshold "timers_run t2 pm2"]
      by auto
  qed
  have same: "notificationService (alert_settled ?key outcome now pm) = ?ns"
    if "outcome \<noteq> Resolved True"
    using that by (simp add: alert_settled_service)
  have failed: "\<exists>pm' m. handlePriceExceeded smb d ty threshold
                        (timers_run t2 (alert_settled ?key outcome now pm))
                      = Inr (pm', [Webhook_post m ?key])"
    if out: "outcome \<noteq> Resolved True" and nd: "\<not> alert_is_duplicate (Some ?key) ?ns"
  proof -
    from nd key have none: "sentAlerts ?ns ?key = None"
      by (simp add: alert_is_duplicate_def)
    have "sentAlerts (fire_timers t2 ?ns) ?key = None"
      using none by (simp add: sentAlerts_fire_timers)
    then have "\<not> alert_is_duplicate (Some ?key)
                 (notificationService (timers_run t2 (alert_settled ?key outcome now pm)))"
      by (simp add: alert_is_duplicate_def timers_run_def same[OF out])
    then show ?thesis
      using handlePriceExceeded_effect
              [of smb d ty threshold "timers_run t2 (alert_settled ?key outcome now pm)"]
      by auto
  qed
  from settle_returns_verdict suppressed same failed show ?thesis by blast
qed

theorem record_only_after_success_witness:
  "no_timer_for (alertKey_of ''BTCUSDT'' Exceed_max)
      (fire_timers 1000 (notificationService new_price_monitor))
   \<and> list_all (\<lambda>e. 1000 \<le> fst e \<and> fst e < 1000 + cooldownPeriod)
        [(1500::int, Answered (Some ''BTCUSDT_max_price_exceeded'') (Resolved True)),
         (1800, Sweep)]
   \<and> (2000::int) < 1000 + cooldownPeriod
   \<and> \<not> alert_is_duplicate (Some (alertKey_of ''BTCUSDT'' Exceed_max))
         (notificationService new_price_monitor)
   \<and> (\<exists>pm'. handlePriceExceeded ''BTCUSDT''
               \<lparr>symbol = ''BTCUSDT'', price = Fin 120000, priceChange = Fin 20000,
                priceChangePercent = Fin 20, volume = Fin 0, high24h = Fin 0, low24h = Fin 0,
                lastUpdate = Undefined\<rparr> Exceed_max (Fin 111100)
               (timers_run 2000
                  (new_price_monitor\<lparr>notificationService :=
                     ns_run [(1500, Answered (Some ''BTCUSDT_max_price_exceeded'') (Resolved True)),
                             (1800, Sweep)]
                       (notificationService
                          (alert_settled ''BTCUSDT_max_price_exceeded'' (Resolved True) 1000
                             (timers_run 1000 new_price_monitor)))\<rparr>))
             = Inr (pm', [Duplicate_skipped ''BTCUSDT_max_price_exceeded'']))
   \<and> (\<exists>pm' m. handlePriceExceeded ''BTCUSDT''
               \<lparr>symbol = ''BTCUSDT'', price = Fin 120000, priceChange = Fin 20000,
                priceChangePercent = Fin 20, volume = Fin 0, high24h = Fin 0, low24h = Fin 0,
                lastUpdate = Undefined\<rparr> Exceed_max (Fin 111100)
               (timers_run 2000 (alert_settled ''BTCUSDT_max_price_exceeded'' (Resolved False) 1000
                  new_price_monitor))
             = Inr (pm', [Webhook_post m ''BTCUSDT_max_price_exceeded'']))"
proof -
  let ?mid = "[(1500::int, Answered (Some ''BTCUSDT_max_price_exceeded'') (Resolved True)),
               (1800, Sweep)]"
  let ?pm2 = "new_price_monitor\<lparr>notificationService :=
                ns_run ?mid
                  (notificationService
                     (alert_settled ''BTCUSDT_max_price_exceeded'' (Resolved True) 1000
                        (timers_run 1000 new_price_monitor)))\<rparr>"
  have nt: "no_timer_for (alertKey_of ''BTCUSDT'' Exceed_max)
              (fire_timers 1000 (notificationService new_price_monitor))"
    by (simp add: new_price_monitor_def new_notification_service_def no_timer_for_def
          fire_timers_def)
  have mid: "list_all (\<lambda>e. 1000 \<le> fst e \<and> fst e < 1000 + cooldownPeriod) ?mid"
    by (simp add: cooldownPeriod_def)
  have nd: "\<not> alert_is_duplicate (Some (alertKey_of ''BTCUSDT'' Exceed_max))
         (notificationService new_price_monitor)"
    by (simp add: alert_is_duplicate_def new_price_monitor_def new_notification_service_def)
  have key: "alertKey_of ''BTCUSDT'' Exceed_max = ''BTCUSDT_max_price_exceeded''"
    by (simp add: alertKey_of_def)
  have win: "(2000::int) < 1000 + cooldownPeriod" by (simp add: cooldownPeriod_def)
  have pm2: "notificationService ?pm2
               = ns_run ?mid (notificationService
                   (alert_settled (alertKey_of ''BTCUSDT'' Exceed_max) (Resolved True) 1000
                      (timers_run 1000 new_price_monitor)))"
    by (simp add: key)
  show ?thesis
    using nt mid nd win pm2
      record_only_after_success[of "''BTCUSDT''" Exceed_max "Resolved False" 1000
          new_price_monitor ?mid 2000 ?pm2
          "\<lparr>symbol = ''BTCUSDT'', price = Fin 120000, priceChange = Fin 20000,
                priceChangePercent = Fin 20, volume = Fin 0, high24h = Fin 0, low24h = Fin 0,
                lastUpdate = Undefined\<rparr>" "Fin 111100"]
    unfolding key by simp
qed

end
